theory Spec2Isabelle
  imports Main
begin

section \<open>Data model (the schema)\<close>

text \<open>
  The rows of the schema, with the columns the storage operations below read or write.
  Identifiers are strings. A \<open>decimal(10, 2)\<close> column (a string such as \<open>"4.00"\<close> in
  the TypeScript types) is modelled by its value in hundredths, an \<open>int\<close>: on such
  values \<open>parseFloat\<close>, one addition, \<open>toFixed(2)\<close> and \<open>Math.floor\<close> are exact, so
  \<open>parseFloat(a) + parseFloat(b)\<close> followed by \<open>toFixed(2)\<close> is \<open>a + b\<close> in
  hundredths and \<open>Math.floor(parseFloat(a))\<close> is \<open>a div 100\<close>. An \<open>integer\<close> column is
  an \<open>int\<close>. A timestamp is a \<open>nat\<close> (the reading of the clock).
\<close>

type_synonym money = int
type_synonym timestamp = nat

record user =
  u_id :: string
  u_username :: string
  u_role :: string
  u_isActive :: bool

record product =
  p_id :: string
  p_name :: string
  p_sku :: string
  p_costPrice :: money
  p_sellingPrice :: money
  p_quantity :: int
  p_minStockLevel :: int
  p_trackStock :: bool
  p_isActive :: bool
  p_updatedAt :: timestamp

record customer =
  c_id :: string
  c_name :: string
  c_loyaltyPoints :: int
  c_totalSpent :: money

text \<open>\<open>InsertSale\<close>: a sale without \<open>id\<close> and \<open>createdAt\<close>.\<close>

record insertSale =
  is_invoiceNumber :: string
  is_customerId :: "string option"
  is_userId :: string
  is_subtotal :: money
  is_taxAmount :: money
  is_discountAmount :: money
  is_total :: money
  is_paymentMethod :: string
  is_status :: string

record sale =
  s_id :: string
  s_invoiceNumber :: string
  s_customerId :: "string option"
  s_userId :: string
  s_subtotal :: money
  s_taxAmount :: money
  s_discountAmount :: money
  s_total :: money
  s_paymentMethod :: string
  s_status :: string
  s_createdAt :: timestamp

text \<open>
  \<open>InsertSaleItem\<close>: a sale item without \<open>id\<close>; its \<open>saleId\<close> is overwritten by
  \<open>createSale\<close> and is left out.
\<close>

record insertSaleItem =
  isi_productId :: string
  isi_quantity :: int
  isi_unitPrice :: money
  isi_totalPrice :: money

record saleItem =
  si_id :: string
  si_saleId :: string
  si_productId :: string
  si_quantity :: int
  si_unitPrice :: money
  si_totalPrice :: money

record stockMovement =
  sm_id :: string
  sm_productId :: string
  sm_movementType :: string
  sm_quantity :: int
  sm_reason :: "string option"
  sm_reference :: "string option"
  sm_userId :: string
  sm_createdAt :: timestamp

record insertReturn =
  ir_saleId :: string
  ir_productId :: string
  ir_quantity :: int
  ir_reason :: string
  ir_refundAmount :: money
  ir_userId :: string

record returnItem =
  r_id :: string
  r_saleId :: string
  r_productId :: string
  r_quantity :: int
  r_reason :: string
  r_refundAmount :: money
  r_userId :: string
  r_createdAt :: timestamp

record purchaseOrder =
  po_id :: string
  po_orderNumber :: string
  po_supplierId :: string
  po_status :: string
  po_totalAmount :: money
  po_userId :: string
  po_createdAt :: timestamp
  po_receivedAt :: "timestamp option"

record purchaseOrderItem =
  poi_id :: string
  poi_purchaseOrderId :: string
  poi_productId :: string
  poi_quantity :: int
  poi_unitCost :: money
  poi_totalCost :: money

section \<open>The store\<close>

text \<open>
  \<open>MemStorage\<close> keeps one \<open>Map\<close> per table; \<open>DatabaseStorage\<close> keeps the same tables
  in the relational database. Both are modelled on one record.

  The tables that are read by key (\<open>products\<close>, \<open>customers\<close>, \<open>purchaseOrders\<close>,
  \<open>users\<close>) are maps from the id. The tables whose rows are only ever added under a
  key just drawn from \<open>randomUUID()\<close> and then read in insertion order (\<open>sales\<close>,
  \<open>saleItems\<close>, \<open>stockMovements\<close>, \<open>returns\<close>, \<open>purchaseOrderItems\<close>) are lists in
  insertion order, each row carrying its id: \<open>Map.set\<close> under a key that is not yet in
  the map adds the row at the end. That \<open>randomUUID()\<close> returns a key not yet in the
  map is the one assumption of this model.

  \<open>randomUUID()\<close> itself is the stream \<open>uuidStream\<close> of the values it is going to
  return, with \<open>uuidDrawn\<close> counting the values drawn so far. Every operation takes
  the reading \<open>now\<close> of the clock that its \<open>new Date()\<close> calls return.
\<close>

record storage =
  users :: "string \<rightharpoonup> user"
  products :: "string \<rightharpoonup> product"
  customers :: "string \<rightharpoonup> customer"
  sales :: "sale list"
  saleItems :: "saleItem list"
  stockMovements :: "stockMovement list"
  returns :: "returnItem list"
  purchaseOrders :: "string \<rightharpoonup> purchaseOrder"
  purchaseOrderItems :: "purchaseOrderItem list"
  uuidStream :: "nat \<Rightarrow> string"
  uuidDrawn :: nat

definition randomUUID :: "storage \<Rightarrow> string \<times> storage" where
  "randomUUID s = (uuidStream s (uuidDrawn s), s\<lparr>uuidDrawn := Suc (uuidDrawn s)\<rparr>)"

text \<open>
  JavaScript truthiness of an optional string (\<open>if (userId)\<close>, \<open>if (sale.customerId)\<close>):
  \<open>undefined\<close>, \<open>null\<close> and the empty string are falsy.
\<close>

fun truthy :: "string option \<Rightarrow> bool" where
  "truthy None = False"
| "truthy (Some x) = (x \<noteq> [])"

section \<open>MemStorage\<close>

subsection \<open>updateProductStock\<close>

text \<open>
  \<^verbatim>\<open>
  async updateProductStock(id, quantity, movementType, reason?, userId?): Promise<boolean> {
    const product = this.products.get(id);
    if (!product) return false;
    const updatedProduct = { ...product, quantity: product.quantity + quantity,
                             updatedAt: new Date() };
    this.products.set(id, updatedProduct);
    if (userId) {
      const movement = { id: randomUUID(), productId: id, movementType, quantity,
                         reason, userId, createdAt: new Date() };
      this.stockMovements.set(movement.id, movement);
    }
    return true;
  }
  \<close>
\<close>

definition updateProductStock ::
  "timestamp \<Rightarrow> string \<Rightarrow> int \<Rightarrow> string \<Rightarrow> string option \<Rightarrow> string option \<Rightarrow> storage
     \<Rightarrow> bool \<times> storage" where
  "updateProductStock now pid quantity movementType reason userId s =
     (case products s pid of
        None \<Rightarrow> (False, s)
      | Some product \<Rightarrow>
          let updatedProduct = product\<lparr>p_quantity := p_quantity product + quantity,
                                       p_updatedAt := now\<rparr>;
              s1 = s\<lparr>products := (products s)(pid \<mapsto> updatedProduct)\<rparr>
          in (case userId of
                None \<Rightarrow> (True, s1)
              | Some uid \<Rightarrow>
                  if uid = [] then (True, s1)
                  else
                    let (uuid, s2) = randomUUID s1;
                        movement = \<lparr>sm_id = uuid, sm_productId = pid,
                                    sm_movementType = movementType, sm_quantity = quantity,
                                    sm_reason = reason, sm_reference = None,
                                    sm_userId = uid, sm_createdAt = now\<rparr>
                    in (True, s2\<lparr>stockMovements := stockMovements s2 @ [movement]\<rparr>)))"

subsection \<open>createSale\<close>

text \<open>
  \<^verbatim>\<open>
  async createSale(insertSale, items): Promise<Sale> {
    const id = randomUUID();
    const sale = { ...insertSale, id, createdAt: new Date() };
    this.sales.set(id, sale);
    for (const itemData of items) {
      const saleItem = { ...itemData, id: randomUUID(), saleId: id };
      this.saleItems.set(saleItem.id, saleItem);
      await this.updateProductStock(saleItem.productId, -saleItem.quantity, 'sale',
                                    `Sale ${sale.invoiceNumber}`, sale.userId);
    }
    if (sale.customerId) {
      const customer = this.customers.get(sale.customerId);
      if (customer) {
        const totalSpent = parseFloat(customer.totalSpent) + parseFloat(sale.total);
        const loyaltyPoints = customer.loyaltyPoints + Math.floor(parseFloat(sale.total));
        const updatedCustomer = { ...customer, totalSpent: totalSpent.toFixed(2),
                                  loyaltyPoints };
        this.customers.set(sale.customerId, updatedCustomer);
      }
    }
    return sale;
  }
  \<close>
  The result of \<open>updateProductStock\<close> is dropped by the loop.
\<close>

definition mkSale :: "insertSale \<Rightarrow> string \<Rightarrow> timestamp \<Rightarrow> sale" where
  "mkSale ins sid now =
     \<lparr>s_id = sid, s_invoiceNumber = is_invoiceNumber ins, s_customerId = is_customerId ins,
      s_userId = is_userId ins, s_subtotal = is_subtotal ins, s_taxAmount = is_taxAmount ins,
      s_discountAmount = is_discountAmount ins, s_total = is_total ins,
      s_paymentMethod = is_paymentMethod ins, s_status = is_status ins,
      s_createdAt = now\<rparr>"

definition mkSaleItem :: "insertSaleItem \<Rightarrow> string \<Rightarrow> string \<Rightarrow> saleItem" where
  "mkSaleItem itemData iid sid =
     \<lparr>si_id = iid, si_saleId = sid, si_productId = isi_productId itemData,
      si_quantity = isi_quantity itemData, si_unitPrice = isi_unitPrice itemData,
      si_totalPrice = isi_totalPrice itemData\<rparr>"

fun createSale_items :: "timestamp \<Rightarrow> sale \<Rightarrow> insertSaleItem list \<Rightarrow> storage \<Rightarrow> storage" where
  "createSale_items now sl [] s = s"
| "createSale_items now sl (itemData # items) s =
     (let (iid, s1) = randomUUID s;
          saleItem = mkSaleItem itemData iid (s_id sl);
          s2 = s1\<lparr>saleItems := saleItems s1 @ [saleItem]\<rparr>;
          (ok, s3) = updateProductStock now (si_productId saleItem) (- si_quantity saleItem)
                       ''sale'' (Some (''Sale '' @ s_invoiceNumber sl)) (Some (s_userId sl)) s2
      in createSale_items now sl items s3)"

definition createSale_customer :: "sale \<Rightarrow> storage \<Rightarrow> storage" where
  "createSale_customer sl s =
     (if truthy (s_customerId sl) then
        (case s_customerId sl of
           None \<Rightarrow> s
         | Some cid \<Rightarrow>
             (case customers s cid of
                None \<Rightarrow> s
              | Some customer \<Rightarrow>
                  let totalSpent = c_totalSpent customer + s_total sl;
                      loyaltyPoints = c_loyaltyPoints customer + s_total sl div 100;
                      updatedCustomer = customer\<lparr>c_totalSpent := totalSpent,
                                                 c_loyaltyPoints := loyaltyPoints\<rparr>
                  in s\<lparr>customers := (customers s)(cid \<mapsto> updatedCustomer)\<rparr>))
      else s)"

definition createSale :: "timestamp \<Rightarrow> insertSale \<Rightarrow> insertSaleItem list \<Rightarrow> storage
     \<Rightarrow> sale \<times> storage" where
  "createSale now ins items s =
     (let (sid, s1) = randomUUID s;
          sl = mkSale ins sid now;
          s2 = s1\<lparr>sales := sales s1 @ [sl]\<rparr>;
          s3 = createSale_items now sl items s2
      in (sl, createSale_customer sl s3))"

subsection \<open>createReturn\<close>

text \<open>
  \<^verbatim>\<open>
  async createReturn(insertReturn): Promise<Return> {
    const id = randomUUID();
    const returnItem = { ...insertReturn, id, createdAt: new Date() };
    this.returns.set(id, returnItem);
    await this.updateProductStock(returnItem.productId, returnItem.quantity, 'return',
                                  `Return: ${returnItem.reason}`, returnItem.userId);
    return returnItem;
  }
  \<close>
\<close>

definition mkReturn :: "insertReturn \<Rightarrow> string \<Rightarrow> timestamp \<Rightarrow> returnItem" where
  "mkReturn ins rid now =
     \<lparr>r_id = rid, r_saleId = ir_saleId ins, r_productId = ir_productId ins,
      r_quantity = ir_quantity ins, r_reason = ir_reason ins,
      r_refundAmount = ir_refundAmount ins, r_userId = ir_userId ins, r_createdAt = now\<rparr>"

definition createReturn :: "timestamp \<Rightarrow> insertReturn \<Rightarrow> storage \<Rightarrow> returnItem \<times> storage" where
  "createReturn now ins s =
     (let (rid, s1) = randomUUID s;
          ret = mkReturn ins rid now;
          s2 = s1\<lparr>returns := returns s1 @ [ret]\<rparr>;
          (ok, s3) = updateProductStock now (r_productId ret) (r_quantity ret) ''return''
                       (Some (''Return: '' @ r_reason ret)) (Some (r_userId ret)) s2
      in (ret, s3))"

subsection \<open>receivePurchaseOrder\<close>

text \<open>
  \<^verbatim>\<open>
  async receivePurchaseOrder(id, userId): Promise<boolean> {
    const order = this.purchaseOrders.get(id);
    if (!order || order.status === 'received') return false;
    const updatedOrder = { ...order, status: 'received', receivedAt: new Date() };
    this.purchaseOrders.set(id, updatedOrder);
    const orderItems = Array.from(this.purchaseOrderItems.values())
      .filter(item => item.purchaseOrderId === id);
    for (const item of orderItems) {
      await this.updateProductStock(item.productId, item.quantity, 'purchase',
                                    `Purchase Order ${order.orderNumber}`, userId);
      const product = this.products.get(item.productId);
      if (product) {
        const updatedProduct = { ...product, costPrice: item.unitCost,
                                 updatedAt: new Date() };
        this.products.set(item.productId, updatedProduct);
      }
    }
    return true;
  }
  \<close>
\<close>

fun receive_items :: "timestamp \<Rightarrow> purchaseOrder \<Rightarrow> string \<Rightarrow> purchaseOrderItem list \<Rightarrow> storage
     \<Rightarrow> storage" where
  "receive_items now order userId [] s = s"
| "receive_items now order userId (item # orderItems) s =
     (let (ok, s1) = updateProductStock now (poi_productId item) (poi_quantity item)
                       ''purchase'' (Some (''Purchase Order '' @ po_orderNumber order))
                       (Some userId) s;
          s2 = (case products s1 (poi_productId item) of
                  None \<Rightarrow> s1
                | Some product \<Rightarrow>
                    let updatedProduct = product\<lparr>p_costPrice := poi_unitCost item,
                                                 p_updatedAt := now\<rparr>
                    in s1\<lparr>products := (products s1)(poi_productId item \<mapsto> updatedProduct)\<rparr>)
      in receive_items now order userId orderItems s2)"

definition receivePurchaseOrder :: "timestamp \<Rightarrow> string \<Rightarrow> string \<Rightarrow> storage \<Rightarrow> bool \<times> storage" where
  "receivePurchaseOrder now oid userId s =
     (case purchaseOrders s oid of
        None \<Rightarrow> (False, s)
      | Some order \<Rightarrow>
          if po_status order = ''received'' then (False, s)
          else
            let updatedOrder = order\<lparr>po_status := ''received'', po_receivedAt := Some now\<rparr>;
                s1 = s\<lparr>purchaseOrders := (purchaseOrders s)(oid \<mapsto> updatedOrder)\<rparr>;
                orderItems = filter (\<lambda>item. poi_purchaseOrderId item = oid)
                               (purchaseOrderItems s1)
            in (True, receive_items now order userId orderItems s1))"

subsection \<open>getTopProducts\<close>

text \<open>
  \<^verbatim>\<open>
  async getTopProducts(limit = 5) {
    const productSales = new Map<string, { totalSold: number; revenue: number }>();
    for (const item of this.saleItems.values()) {
      const existing = productSales.get(item.productId) || { totalSold: 0, revenue: 0 };
      productSales.set(item.productId, {
        totalSold: existing.totalSold + item.quantity,
        revenue: existing.revenue + parseFloat(item.totalPrice),
      });
    }
    const topProducts = Array.from(productSales.entries())
      .map(([productId, stats]) => ({ product: this.products.get(productId)!, ...stats }))
      .filter(item => item.product)
      .sort((a, b) => b.revenue - a.revenue)
      .slice(0, limit);
    return topProducts;
  }
  \<close>
  \<open>productSales\<close> is read back in insertion order, so it is an association list:
  \<open>mapSet\<close> is \<open>Map.set\<close> (an existing key keeps its place, a new key goes to the
  end) and \<open>map_of\<close> is \<open>Map.get\<close>. \<open>Array.prototype.sort\<close> is stable, as the
  insertion sort \<open>sort_key\<close> is; the comparator \<open>b.revenue - a.revenue\<close> orders by
  descending revenue, that is by ascending \<open>- revenue\<close>. \<open>slice(0, limit)\<close> counts a
  negative \<open>limit\<close> from the end of the array. The revenue of a product is the exact
  sum of its total prices, in hundredths; the rounding of a sum of floats is not
  modelled, so two products whose exact revenues are equal, and whose float sums differ
  by that rounding, are a tie here and may be ordered by the source.
\<close>

record stats =
  totalSold :: int
  revenue :: money

record topProduct =
  tp_product :: product
  tp_totalSold :: int
  tp_revenue :: money

fun mapSet :: "'k \<Rightarrow> 'v \<Rightarrow> ('k \<times> 'v) list \<Rightarrow> ('k \<times> 'v) list" where
  "mapSet k v [] = [(k, v)]"
| "mapSet k v ((k', v') # kvs) = (if k' = k then (k, v) # kvs else (k', v') # mapSet k v kvs)"

definition addSale :: "(string \<times> stats) list \<Rightarrow> saleItem \<Rightarrow> (string \<times> stats) list" where
  "addSale productSales item =
     (let existing = (case map_of productSales (si_productId item) of
                        None \<Rightarrow> \<lparr>totalSold = 0, revenue = 0\<rparr>
                      | Some e \<Rightarrow> e)
      in mapSet (si_productId item)
           \<lparr>totalSold = totalSold existing + si_quantity item,
            revenue = revenue existing + si_totalPrice item\<rparr> productSales)"

definition slice0 :: "int \<Rightarrow> 'a list \<Rightarrow> 'a list" where
  "slice0 limit xs =
     (if limit < 0 then take (nat (int (length xs) + limit)) xs else take (nat limit) xs)"

definition topEntry :: "storage \<Rightarrow> string \<times> stats \<Rightarrow> topProduct option" where
  "topEntry s e =
     (case products s (fst e) of
        None \<Rightarrow> None
      | Some p \<Rightarrow> Some \<lparr>tp_product = p, tp_totalSold = totalSold (snd e),
                         tp_revenue = revenue (snd e)\<rparr>)"

definition getTopProducts :: "int option \<Rightarrow> storage \<Rightarrow> topProduct list" where
  "getTopProducts limit s =
     (let productSales = foldl addSale [] (saleItems s)
      in slice0 (case limit of None \<Rightarrow> 5 | Some l \<Rightarrow> l)
           (sort_key (\<lambda>e. - tp_revenue e) (List.map_filter (topEntry s) productSales)))"

section \<open>DatabaseStorage\<close>

text \<open>
  The database is the same record of tables; the methods of \<open>DatabaseStorage\<close> carry
  the prefix \<open>db_\<close>, since both classes implement \<open>IStorage\<close> under the same
  method names. What the schema makes the database check
  on a write is part of the model: a foreign key (\<open>references\<close>) must name an existing
  row unless it is \<open>NULL\<close>, a \<open>unique\<close> column must stay unique, and an \<open>integer\<close>
  column holds 32 bits. A statement that fails such a check throws and writes nothing;
  the statements before it stay written (no transaction is opened anywhere). Columns with
  a default (\<open>id\<close> from \<open>gen_random_uuid()\<close>, \<open>created_at\<close> from \<open>now()\<close>) are filled
  from the same uuid stream and clock. The precision of the \<open>decimal\<close> columns and a
  lost connection are not modelled.
\<close>

definition int4 :: "int \<Rightarrow> bool" where
  "int4 n = (- 2147483648 \<le> n \<and> n \<le> 2147483647)"

subsection \<open>updateProductStock\<close>

text \<open>
  \<^verbatim>\<open>
  async updateProductStock(id, quantity, movementType, reason?, userId?): Promise<boolean> {
    try {
      await db.update(products).set({ quantity }).where(eq(products.id, id));
      if (userId) {
        await db.insert(stockMovements).values({
          productId: id, quantity, movementType, reason: reason || null, userId });
      }
      return true;
    } catch (error) {
      return false;
    }
  }
  \<close>
\<close>

definition db_updateProductStock ::
  "timestamp \<Rightarrow> string \<Rightarrow> int \<Rightarrow> string \<Rightarrow> string option \<Rightarrow> string option \<Rightarrow> storage
     \<Rightarrow> bool \<times> storage" where
  "db_updateProductStock now pid quantity movementType reason userId s =
     (if \<not> int4 quantity then (False, s)
      else
        let s1 = (case products s pid of
                    None \<Rightarrow> s
                  | Some product \<Rightarrow>
                      s\<lparr>products := (products s)(pid \<mapsto> product\<lparr>p_quantity := quantity\<rparr>)\<rparr>)
        in (case userId of
              None \<Rightarrow> (True, s1)
            | Some uid \<Rightarrow>
                if uid = [] then (True, s1)
                else if products s1 pid = None \<or> users s1 uid = None then (False, s1)
                else
                  let (uuid, s2) = randomUUID s1;
                      movement = \<lparr>sm_id = uuid, sm_productId = pid,
                                  sm_movementType = movementType, sm_quantity = quantity,
                                  sm_reason = (if truthy reason then reason else None),
                                  sm_reference = None, sm_userId = uid, sm_createdAt = now\<rparr>
                  in (True, s2\<lparr>stockMovements := stockMovements s2 @ [movement]\<rparr>)))"

subsection \<open>createSale\<close>

text \<open>
  \<^verbatim>\<open>
  async createSale(insertSale, items): Promise<Sale> {
    const result = await db.insert(sales).values(insertSale).returning();
    const sale = result[0];
    for (const item of items) {
      await db.insert(saleItems).values({ ...item, saleId: sale.id });
      const product = await this.getProduct(item.productId);
      if (product && product.trackStock) {
        const newQuantity = product.quantity - item.quantity;
        await db.update(products).set({ quantity: newQuantity })
          .where(eq(products.id, item.productId));
        await db.insert(stockMovements).values({
          productId: item.productId, movementType: 'sale', quantity: -item.quantity,
          reason: 'Sale transaction', reference: sale.id, userId: insertSale.userId });
      }
    }
    return sale;
  }
  \<close>
  Nothing is caught here: a statement that throws ends the call with the error, and the
  rows written so far stay. A value outside the range of its column is refused before
  the foreign keys of the row are looked at.
\<close>

datatype dbError = ForeignKeyViolation | UniqueViolation | OutOfRange

fun db_createSale_items :: "timestamp \<Rightarrow> sale \<Rightarrow> insertSaleItem list \<Rightarrow> storage
     \<Rightarrow> dbError option \<times> storage" where
  "db_createSale_items now sl [] s = (None, s)"
| "db_createSale_items now sl (item # items) s =
     (if \<not> int4 (isi_quantity item) then (Some OutOfRange, s)
      else if products s (isi_productId item) = None then (Some ForeignKeyViolation, s)
      else
        let (iid, s1) = randomUUID s;
            s2 = s1\<lparr>saleItems := saleItems s1 @ [mkSaleItem item iid (s_id sl)]\<rparr>
        in (case products s2 (isi_productId item) of
              None \<Rightarrow> db_createSale_items now sl items s2
            | Some product \<Rightarrow>
                if p_trackStock product then
                  let newQuantity = p_quantity product - isi_quantity item
                  in if \<not> int4 newQuantity then (Some OutOfRange, s2)
                     else
                       let s3 = s2\<lparr>products := (products s2)
                                   (isi_productId item \<mapsto> product\<lparr>p_quantity := newQuantity\<rparr>)\<rparr>
                       in if \<not> int4 (- isi_quantity item) then (Some OutOfRange, s3)
                          else
                            let (mid, s4) = randomUUID s3;
                                movement = \<lparr>sm_id = mid, sm_productId = isi_productId item,
                                            sm_movementType = ''sale'',
                                            sm_quantity = - isi_quantity item,
                                            sm_reason = Some ''Sale transaction'',
                                            sm_reference = Some (s_id sl),
                                            sm_userId = s_userId sl, sm_createdAt = now\<rparr>
                            in db_createSale_items now sl items
                                 (s4\<lparr>stockMovements := stockMovements s4 @ [movement]\<rparr>)
                else db_createSale_items now sl items s2))"

definition db_createSale :: "timestamp \<Rightarrow> insertSale \<Rightarrow> insertSaleItem list \<Rightarrow> storage
     \<Rightarrow> (dbError + sale) \<times> storage" where
  "db_createSale now ins items s =
     (if is_invoiceNumber ins \<in> set (map s_invoiceNumber (sales s))
      then (Inl UniqueViolation, s)
      else if users s (is_userId ins) = None
              \<or> (case is_customerId ins of None \<Rightarrow> False | Some cid \<Rightarrow> customers s cid = None)
      then (Inl ForeignKeyViolation, s)
      else
        let (sid, s1) = randomUUID s;
            sl = mkSale ins sid now;
            s2 = s1\<lparr>sales := sales s1 @ [sl]\<rparr>
        in (case db_createSale_items now sl items s2 of
              (Some err, s3) \<Rightarrow> (Inl err, s3)
            | (None, s3) \<Rightarrow> (Inr sl, s3)))"

subsection \<open>receivePurchaseOrder and getTopProducts\<close>

text \<open>
  \<^verbatim>\<open>
  async receivePurchaseOrder(id, userId): Promise<boolean> {
    try {
      await db.update(purchaseOrders).set({ status: "received", receivedAt: new Date() })
        .where(eq(purchaseOrders.id, id));
      return true;
    } catch (error) {
      return false;
    }
  }

  async getTopProducts(limit = 5) {
    // This would require complex aggregation - for now return empty array
    return [];
  }
  \<close>
\<close>

definition db_receivePurchaseOrder :: "timestamp \<Rightarrow> string \<Rightarrow> string \<Rightarrow> storage
     \<Rightarrow> bool \<times> storage" where
  "db_receivePurchaseOrder now oid userId s =
     (case purchaseOrders s oid of
        None \<Rightarrow> (True, s)
      | Some order \<Rightarrow>
          (True, s\<lparr>purchaseOrders := (purchaseOrders s)
                     (oid \<mapsto> order\<lparr>po_status := ''received'', po_receivedAt := Some now\<rparr>)\<rparr>))"

definition db_getTopProducts :: "int option \<Rightarrow> storage \<Rightarrow> topProduct list" where
  "db_getTopProducts limit s = []"

section \<open>The ledger: quantities, movements and sequences of operations\<close>

text \<open>
  The sum of the signed quantities of the stock movements of one product, and the
  quantity of a product in the store (\<open>None\<close> when there is no such product).
\<close>

definition movement_sum :: "string \<Rightarrow> stockMovement list \<Rightarrow> int" where
  "movement_sum pid ms = sum_list (map sm_quantity (filter (\<lambda>m. sm_productId m = pid) ms))"

definition quantityOf :: "storage \<Rightarrow> string \<Rightarrow> int option" where
  "quantityOf s pid = map_option p_quantity (products s pid)"

text \<open>
  \<open>ledger_ext s s'\<close>: from \<open>s\<close> to \<open>s'\<close> the movement log has only grown, and the
  quantity of every product has changed by the sum of the movements added for it.
\<close>

definition ledger_ext :: "storage \<Rightarrow> storage \<Rightarrow> bool" where
  "ledger_ext s s' \<longleftrightarrow>
     (\<exists>ms. stockMovements s' = stockMovements s @ ms \<and>
           (\<forall>pid. quantityOf s' pid
                    = map_option (\<lambda>q. q + movement_sum pid ms) (quantityOf s pid)))"

text \<open>
  The four ledger operations, as calls on the storage interface (with the route that
  makes the call): a sale (\<open>createSale\<close>, \<open>POST /api/sales\<close>), a manual adjustment
  (\<open>updateProductStock\<close> with movement type \<open>'adjustment'\<close>,
  \<open>POST /api/products/:id/adjust-stock\<close>), a return (\<open>createReturn\<close>,
  \<open>POST /api/returns\<close>) and the receipt of a purchase order
  (\<open>receivePurchaseOrder\<close>, \<open>POST /api/purchase-orders/:id/receive\<close>).
  \<open>op_actor\<close> is the user id that the operation hands to \<open>updateProductStock\<close>; the
  interface declares it optional there (\<open>userId?: string\<close>).
\<close>

datatype ledger_op =
    OpSale insertSale "insertSaleItem list"
  | OpAdjustment string int "string option" "string option"
  | OpReturn insertReturn
  | OpReceipt string string

fun apply_op :: "timestamp \<Rightarrow> ledger_op \<Rightarrow> storage \<Rightarrow> storage" where
  "apply_op now (OpSale ins items) s = snd (createSale now ins items s)"
| "apply_op now (OpAdjustment pid quantity reason userId) s =
     snd (updateProductStock now pid quantity ''adjustment'' reason userId s)"
| "apply_op now (OpReturn ins) s = snd (createReturn now ins s)"
| "apply_op now (OpReceipt oid userId) s = snd (receivePurchaseOrder now oid userId s)"

fun op_actor :: "ledger_op \<Rightarrow> string option" where
  "op_actor (OpSale ins items) = Some (is_userId ins)"
| "op_actor (OpAdjustment pid quantity reason userId) = userId"
| "op_actor (OpReturn ins) = Some (ir_userId ins)"
| "op_actor (OpReceipt oid userId) = Some userId"

fun run_ops :: "(timestamp \<times> ledger_op) list \<Rightarrow> storage \<Rightarrow> storage" where
  "run_ops [] s = s"
| "run_ops ((now, opn) # ops) s = run_ops ops (apply_op now opn s)"

section \<open>Scenarios\<close>

text \<open>Concrete stores and requests, used to run the operations.\<close>

definition exampleStream :: "nat \<Rightarrow> string" where
  "exampleStream n = ''uuid-'' @ replicate n (CHR ''i'')"

definition emptyStorage :: storage where
  "emptyStorage =
     \<lparr>users = Map.empty, products = Map.empty, customers = Map.empty, sales = [],
      saleItems = [], stockMovements = [], returns = [], purchaseOrders = Map.empty,
      purchaseOrderItems = [], uuidStream = exampleStream, uuidDrawn = 0\<rparr>"

definition userU :: user where
  "userU = \<lparr>u_id = ''u1'', u_username = ''admin'', u_role = ''admin'', u_isActive = True\<rparr>"

text \<open>Product P of scenarios A to D: 5 in stock, tracked.\<close>

definition productP :: product where
  "productP = \<lparr>p_id = ''P'', p_name = ''Widget'', p_sku = ''W-1'', p_costPrice = 350,
     p_sellingPrice = 500, p_quantity = 5, p_minStockLevel = 10, p_trackStock = True,
     p_isActive = True, p_updatedAt = 0\<rparr>"

definition storeP :: storage where
  "storeP = emptyStorage\<lparr>users := [''u1'' \<mapsto> userU], products := [''P'' \<mapsto> productP]\<rparr>"

text \<open>A sale of 3 units of P by user \<open>u1\<close>, with no customer attached.\<close>

definition saleHeader :: insertSale where
  "saleHeader = \<lparr>is_invoiceNumber = ''INV-1'', is_customerId = None, is_userId = ''u1'',
     is_subtotal = 1500, is_taxAmount = 0, is_discountAmount = 0, is_total = 1500,
     is_paymentMethod = ''cash'', is_status = ''completed''\<rparr>"

definition lineP :: "int \<Rightarrow> insertSaleItem" where
  "lineP n = \<lparr>isi_productId = ''P'', isi_quantity = n, isi_unitPrice = 500,
     isi_totalPrice = 500 * n\<rparr>"

text \<open>
  Scenario C: product P with 2 in stock and cost price 3.50, and purchase order
  \<open>po1\<close> with the one line \<open>{productId: P, quantity: 20, unitCost: 4.00}\<close>. The
  status of the order is a parameter.
\<close>

definition productP2 :: product where
  "productP2 = productP\<lparr>p_quantity := 2\<rparr>"

definition orderPO :: "string \<Rightarrow> purchaseOrder" where
  "orderPO status = \<lparr>po_id = ''po1'', po_orderNumber = ''PO-1'', po_supplierId = ''sup1'',
     po_status = status, po_totalAmount = 8000, po_userId = ''u1'', po_createdAt = 0,
     po_receivedAt = None\<rparr>"

definition itemPO :: purchaseOrderItem where
  "itemPO = \<lparr>poi_id = ''poi1'', poi_purchaseOrderId = ''po1'', poi_productId = ''P'',
     poi_quantity = 20, poi_unitCost = 400, poi_totalCost = 8000\<rparr>"

definition storePO :: "string \<Rightarrow> storage" where
  "storePO status = emptyStorage\<lparr>users := [''u1'' \<mapsto> userU],
     products := [''P'' \<mapsto> productP2], purchaseOrders := [''po1'' \<mapsto> orderPO status],
     purchaseOrderItems := [itemPO]\<rparr>"

text \<open>A return of a product that is not in the store.\<close>

definition returnOfGhost :: insertReturn where
  "returnOfGhost = \<lparr>ir_saleId = ''s1'', ir_productId = ''ghost'', ir_quantity = 1,
     ir_reason = ''damaged'', ir_refundAmount = 500, ir_userId = ''u1''\<rparr>"

text \<open>Customer \<open>c1\<close>: 20.50 spent so far, 7 loyalty points.\<close>

definition customerC :: customer where
  "customerC = \<lparr>c_id = ''c1'', c_name = ''Ada'', c_loyaltyPoints = 7, c_totalSpent = 2050\<rparr>"

definition storeC :: storage where
  "storeC = storeP\<lparr>customers := [''c1'' \<mapsto> customerC]\<rparr>"

text \<open>
  What a sale item keeps of the line it was created from; the quantity a list of lines
  sells of one product; and the product, type and delta of a stock movement.
\<close>

definition itemDataOf :: "saleItem \<Rightarrow> insertSaleItem" where
  "itemDataOf item = \<lparr>isi_productId = si_productId item, isi_quantity = si_quantity item,
     isi_unitPrice = si_unitPrice item, isi_totalPrice = si_totalPrice item\<rparr>"

definition soldQuantity :: "string \<Rightarrow> insertSaleItem list \<Rightarrow> int" where
  "soldQuantity pid items =
     sum_list (map isi_quantity (filter (\<lambda>i. isi_productId i = pid) items))"

definition movementEntry :: "stockMovement \<Rightarrow> string \<times> string \<times> int" where
  "movementEntry m = (sm_productId m, sm_movementType m, sm_quantity m)"

text \<open>A sale line for a product that is not in the store.\<close>

definition lineGhost :: insertSaleItem where
  "lineGhost = \<lparr>isi_productId = ''ghost'', isi_quantity = 1, isi_unitPrice = 100,
     isi_totalPrice = 100\<rparr>"

text \<open>Product U is not tracked (\<open>trackStock = false\<close>); 5 in stock.\<close>

definition productU :: product where
  "productU = \<lparr>p_id = ''U'', p_name = ''Gift wrapping'', p_sku = ''G-1'', p_costPrice = 0,
     p_sellingPrice = 100, p_quantity = 5, p_minStockLevel = 0, p_trackStock = False,
     p_isActive = True, p_updatedAt = 0\<rparr>"

definition storeU :: storage where
  "storeU = emptyStorage\<lparr>users := [''u1'' \<mapsto> userU], products := [''U'' \<mapsto> productU]\<rparr>"

definition lineU :: "int \<Rightarrow> insertSaleItem" where
  "lineU n = \<lparr>isi_productId = ''U'', isi_quantity = n, isi_unitPrice = 100,
     isi_totalPrice = 100 * n\<rparr>"

text \<open>
  Scenario E: a sale history in which product A has revenue 100 (two items, 60 and 40),
  B has 250 and C has 80.
\<close>

definition productNamed :: "string \<Rightarrow> product" where
  "productNamed pid = \<lparr>p_id = pid, p_name = pid, p_sku = pid, p_costPrice = 100,
     p_sellingPrice = 200, p_quantity = 50, p_minStockLevel = 10, p_trackStock = True,
     p_isActive = True, p_updatedAt = 0\<rparr>"

definition soldItem :: "string \<Rightarrow> string \<Rightarrow> int \<Rightarrow> money \<Rightarrow> saleItem" where
  "soldItem iid pid n price = \<lparr>si_id = iid, si_saleId = ''s1'', si_productId = pid,
     si_quantity = n, si_unitPrice = price div n, si_totalPrice = price\<rparr>"

definition storeE :: storage where
  "storeE = emptyStorage\<lparr>
     products := [''A'' \<mapsto> productNamed ''A'', ''B'' \<mapsto> productNamed ''B'',
                  ''C'' \<mapsto> productNamed ''C''],
     saleItems := [soldItem ''i1'' ''A'' 1 6000, soldItem ''i2'' ''C'' 2 8000,
                   soldItem ''i3'' ''B'' 5 25000, soldItem ''i4'' ''A'' 1 4000]\<rparr>"

text \<open>The total quantity and total revenue of the sale items of one product.\<close>

definition soldStats :: "string \<Rightarrow> saleItem list \<Rightarrow> stats" where
  "soldStats pid items =
     \<lparr>totalSold = sum_list (map si_quantity (filter (\<lambda>i. si_productId i = pid) items)),
      revenue = sum_list (map si_totalPrice (filter (\<lambda>i. si_productId i = pid) items))\<rparr>"

section \<open>MemStorage.updateProductStock\<close>

lemma ups_missing: "products s pid = None \<Longrightarrow> updateProductStock now pid q mt r u s = (False, s)"
  by (simp add: updateProductStock_def)

lemma ups_no_actor:
  "products s pid = Some p \<Longrightarrow> \<not> truthy u \<Longrightarrow>
   updateProductStock now pid q mt r u s =
     (True, s\<lparr>products := (products s)(pid \<mapsto> p\<lparr>p_quantity := p_quantity p + q, p_updatedAt := now\<rparr>)\<rparr>)"
  by (cases u) (simp_all add: updateProductStock_def Let_def)

lemma ups_actor:
  "products s pid = Some p \<Longrightarrow> uid \<noteq> [] \<Longrightarrow>
   updateProductStock now pid q mt r (Some uid) s =
     (True, s\<lparr>products := (products s)(pid \<mapsto> p\<lparr>p_quantity := p_quantity p + q, p_updatedAt := now\<rparr>),
              uuidDrawn := Suc (uuidDrawn s),
              stockMovements := stockMovements s @
                [\<lparr>sm_id = uuidStream s (uuidDrawn s), sm_productId = pid, sm_movementType = mt,
                  sm_quantity = q, sm_reason = r, sm_reference = None, sm_userId = uid,
                  sm_createdAt = now\<rparr>]\<rparr>)"
  by (simp add: updateProductStock_def Let_def randomUUID_def)

lemma ups_frame:
  "users (snd (updateProductStock now pid q mt r u s)) = users s"
  "customers (snd (updateProductStock now pid q mt r u s)) = customers s"
  "sales (snd (updateProductStock now pid q mt r u s)) = sales s"
  "saleItems (snd (updateProductStock now pid q mt r u s)) = saleItems s"
  "returns (snd (updateProductStock now pid q mt r u s)) = returns s"
  "purchaseOrders (snd (updateProductStock now pid q mt r u s)) = purchaseOrders s"
  "purchaseOrderItems (snd (updateProductStock now pid q mt r u s)) = purchaseOrderItems s"
  "uuidStream (snd (updateProductStock now pid q mt r u s)) = uuidStream s"
  by (simp_all add: updateProductStock_def Let_def randomUUID_def split: option.splits)

lemma ups_quantityOf:
  "quantityOf (snd (updateProductStock now pid q mt r u s)) pid'
     = (if pid' = pid then map_option (\<lambda>x. x + q) (quantityOf s pid) else quantityOf s pid')"
  by (simp add: updateProductStock_def Let_def randomUUID_def quantityOf_def
      split: option.splits)

lemma ups_movements:
  "map movementEntry (stockMovements (snd (updateProductStock now pid q mt r u s)))
     = map movementEntry (stockMovements s)
       @ (if truthy u \<and> quantityOf s pid \<noteq> None then [(pid, mt, q)] else [])"
  by (simp add: updateProductStock_def Let_def randomUUID_def quantityOf_def movementEntry_def
      split: option.splits)

section \<open>MemStorage.createSale\<close>

lemma createSale_items_frame:
  "users (createSale_items now sl items s) = users s"
  "customers (createSale_items now sl items s) = customers s"
  "sales (createSale_items now sl items s) = sales s"
  "returns (createSale_items now sl items s) = returns s"
  "purchaseOrders (createSale_items now sl items s) = purchaseOrders s"
  "purchaseOrderItems (createSale_items now sl items s) = purchaseOrderItems s"
  by (induction items arbitrary: s; simp add: Let_def split_beta ups_frame randomUUID_def)+

lemma createSale_items_saleItems:
  "map itemDataOf (saleItems (createSale_items now sl items s))
     = map itemDataOf (saleItems s) @ items"
  by (induction items arbitrary: s)
     (simp_all add: Let_def split_beta ups_frame randomUUID_def itemDataOf_def mkSaleItem_def)

lemma createSale_items_quantityOf:
  "quantityOf (createSale_items now sl items s) pid
     = map_option (\<lambda>q. q - soldQuantity pid items) (quantityOf s pid)"
proof (induction items arbitrary: s)
  case Nil
  show ?case by (simp add: soldQuantity_def option.map_ident)
next
  case (Cons itemData items)
  have pre: "quantityOf ((snd (randomUUID s))\<lparr>saleItems := xs\<rparr>) = quantityOf s" for xs
    by (rule ext) (simp add: quantityOf_def randomUUID_def)
  show ?case
    by (simp add: Let_def split_beta Cons.IH ups_quantityOf pre mkSaleItem_def soldQuantity_def
        option.map_comp comp_def option.map_ident diff_diff_eq)
qed

lemma createSale_items_movements:
  "map movementEntry (stockMovements (createSale_items now sl items s))
     = map movementEntry (stockMovements s)
       @ (if s_userId sl = [] then []
          else map (\<lambda>i. (isi_productId i, ''sale'', - isi_quantity i))
                 (filter (\<lambda>i. quantityOf s (isi_productId i) \<noteq> None) items))"
proof (induction items arbitrary: s)
  case Nil
  show ?case by simp
next
  case (Cons itemData items)
  have pre: "quantityOf ((snd (randomUUID s))\<lparr>saleItems := xs\<rparr>) = quantityOf s" for xs
    by (rule ext) (simp add: quantityOf_def randomUUID_def)
  have pre2: "stockMovements ((snd (randomUUID s))\<lparr>saleItems := xs\<rparr>) = stockMovements s" for xs
    by (simp add: randomUUID_def)
  have dom: "(quantityOf (snd (updateProductStock now pid q mt r u t)) pid' \<noteq> None)
      = (quantityOf t pid' \<noteq> None)" for pid q mt r u t pid'
    by (simp add: ups_quantityOf)
  show ?case
    by (simp add: Let_def split_beta Cons.IH ups_movements pre pre2 mkSaleItem_def dom
        del: not_None_eq)
qed

lemma createSale_customer_ledger [simp]:
  "products (createSale_customer sl s) = products s"
  "stockMovements (createSale_customer sl s) = stockMovements s"
  by (simp_all add: createSale_customer_def Let_def split: option.splits)

lemma createSale_result:
  "fst (createSale now ins items s) = mkSale ins (uuidStream s (uuidDrawn s)) now"
  by (simp add: createSale_def Let_def split_beta randomUUID_def)

lemma createSale_sales:
  "sales (snd (createSale now ins items s)) = sales s @ [fst (createSale now ins items s)]"
  by (simp add: createSale_def Let_def split_beta randomUUID_def createSale_customer_def
      createSale_items_frame split: option.splits)

lemma createSale_saleItems:
  "map itemDataOf (saleItems (snd (createSale now ins items s)))
     = map itemDataOf (saleItems s) @ items"
  by (simp add: createSale_def Let_def split_beta randomUUID_def createSale_customer_def
      createSale_items_saleItems split: option.splits)

lemma createSale_quantityOf:
  "quantityOf (snd (createSale now ins items s)) pid
     = map_option (\<lambda>q. q - soldQuantity pid items) (quantityOf s pid)"
proof -
  have "quantityOf (createSale_customer sl t) = quantityOf t" for sl t
    by (rule ext) (simp add: quantityOf_def)
  moreover have "quantityOf ((snd (randomUUID s))\<lparr>sales := xs\<rparr>) = quantityOf s" for xs
    by (rule ext) (simp add: quantityOf_def randomUUID_def)
  ultimately show ?thesis
    by (simp add: createSale_def Let_def split_beta createSale_items_quantityOf)
qed

lemma createSale_movements:
  "map movementEntry (stockMovements (snd (createSale now ins items s)))
     = map movementEntry (stockMovements s)
       @ (if is_userId ins = [] then []
          else map (\<lambda>i. (isi_productId i, ''sale'', - isi_quantity i))
                 (filter (\<lambda>i. quantityOf s (isi_productId i) \<noteq> None) items))"
proof -
  have "quantityOf ((snd (randomUUID s))\<lparr>sales := xs\<rparr>) = quantityOf s" for xs
    by (rule ext) (simp add: quantityOf_def randomUUID_def)
  moreover have "stockMovements ((snd (randomUUID s))\<lparr>sales := xs\<rparr>) = stockMovements s" for xs
    by (simp add: randomUUID_def)
  ultimately show ?thesis
    by (simp add: createSale_def Let_def split_beta createSale_items_movements mkSale_def
        del: not_None_eq)
qed

lemma createSale_movements_of:
  "filter (\<lambda>e. fst e = pid)
       (map movementEntry (stockMovements (snd (createSale now ins items s))))
     = filter (\<lambda>e. fst e = pid) (map movementEntry (stockMovements s))
       @ (if is_userId ins = [] \<or> quantityOf s pid = None then []
          else map (\<lambda>i. (pid, ''sale'', - isi_quantity i))
                 (filter (\<lambda>i. isi_productId i = pid) items))"
proof -
  have "filter (\<lambda>e. fst e = pid)
          (map (\<lambda>i. (isi_productId i, ''sale'', - isi_quantity i))
             (filter (\<lambda>i. quantityOf s (isi_productId i) \<noteq> None) xs))
        = (if quantityOf s pid = None then []
           else map (\<lambda>i. (pid, ''sale'', - isi_quantity i))
                  (filter (\<lambda>i. isi_productId i = pid) xs))" for xs :: "insertSaleItem list"
    by (induction xs) (auto simp del: not_None_eq)
  then show ?thesis
    by (simp add: createSale_movements del: not_None_eq)
qed

lemma createSale_customers:
  "customers (snd (createSale now ins items s))
     = customers (createSale_customer (mkSale ins (uuidStream s (uuidDrawn s)) now) s)"
  by (simp add: createSale_def Let_def split_beta randomUUID_def createSale_customer_def
      createSale_items_frame split: option.splits)

section \<open>MemStorage.receivePurchaseOrder\<close>

lemma receive_items_frame:
  "users (receive_items now order userId orderItems s) = users s"
  "customers (receive_items now order userId orderItems s) = customers s"
  "sales (receive_items now order userId orderItems s) = sales s"
  "saleItems (receive_items now order userId orderItems s) = saleItems s"
  "returns (receive_items now order userId orderItems s) = returns s"
  "purchaseOrders (receive_items now order userId orderItems s) = purchaseOrders s"
  "purchaseOrderItems (receive_items now order userId orderItems s) = purchaseOrderItems s"
  by (induction orderItems arbitrary: s;
      simp add: Let_def split_beta ups_frame split: option.splits)+

lemma receive_received:
  "purchaseOrders s oid = Some order \<Longrightarrow> po_status order = ''received'' \<Longrightarrow>
   receivePurchaseOrder now oid userId s = (False, s)"
  by (simp add: receivePurchaseOrder_def)

lemma receive_other:
  assumes "purchaseOrders s oid = Some order" and "po_status order \<noteq> ''received''"
  shows "fst (receivePurchaseOrder now oid userId s) = True"
    and "purchaseOrders (snd (receivePurchaseOrder now oid userId s)) oid
           = Some (order\<lparr>po_status := ''received'', po_receivedAt := Some now\<rparr>)"
  using assms by (simp_all add: receivePurchaseOrder_def Let_def receive_items_frame)

section \<open>Every operation with an acting user extends the ledger\<close>

lemma movement_sum_append: "movement_sum pid (xs @ ys) = movement_sum pid xs + movement_sum pid ys"
  by (simp add: movement_sum_def)

lemma ledger_ext_refl: "ledger_ext s s"
  unfolding ledger_ext_def
  by (rule exI [of _ "[]"]) (simp add: movement_sum_def option.map_ident)

lemma ledger_ext_same:
  "products s' = products s \<Longrightarrow> stockMovements s' = stockMovements s \<Longrightarrow> ledger_ext s s'"
  unfolding ledger_ext_def quantityOf_def
  by (rule exI [of _ "[]"]) (simp add: movement_sum_def option.map_ident)

lemma ledger_ext_trans:
  assumes "ledger_ext s t" and "ledger_ext t u"
  shows "ledger_ext s u"
proof -
  from assms(1) obtain ms where ms: "stockMovements t = stockMovements s @ ms"
    "\<And>pid. quantityOf t pid = map_option (\<lambda>q. q + movement_sum pid ms) (quantityOf s pid)"
    unfolding ledger_ext_def by blast
  from assms(2) obtain ns where ns: "stockMovements u = stockMovements t @ ns"
    "\<And>pid. quantityOf u pid = map_option (\<lambda>q. q + movement_sum pid ns) (quantityOf t pid)"
    unfolding ledger_ext_def by blast
  have "stockMovements u = stockMovements s @ (ms @ ns)"
    using ms(1) ns(1) by simp
  moreover have "quantityOf u pid
      = map_option (\<lambda>q. q + movement_sum pid (ms @ ns)) (quantityOf s pid)" for pid
    by (simp add: ns(2) ms(2) movement_sum_append option.map_comp comp_def add.assoc)
  ultimately show ?thesis
    unfolding ledger_ext_def by blast
qed

lemma ups_ledger_ext:
  assumes "truthy u"
  shows "ledger_ext s (snd (updateProductStock now pid q mt r u s))"
proof (cases "products s pid")
  case None
  then show ?thesis by (simp add: ups_missing ledger_ext_refl)
next
  case (Some p)
  from assms obtain uid where u: "u = Some uid" "uid \<noteq> []" by (cases u) auto
  let ?m = "\<lparr>sm_id = uuidStream s (uuidDrawn s), sm_productId = pid, sm_movementType = mt,
              sm_quantity = q, sm_reason = r, sm_reference = None, sm_userId = uid,
              sm_createdAt = now\<rparr>"
  show ?thesis
    unfolding ledger_ext_def
    by (rule exI [of _ "[?m]"])
       (simp add: ups_actor [OF Some u(2)] u(1) quantityOf_def movement_sum_def Some
          option.map_ident option.map_comp comp_def)
qed

lemma createSale_items_ledger_ext:
  assumes "s_userId sl \<noteq> []"
  shows "ledger_ext s (createSale_items now sl items s)"
proof (induction items arbitrary: s)
  case Nil
  show ?case by (simp add: ledger_ext_refl)
next
  case (Cons itemData items)
  define s2 where "s2 = (snd (randomUUID s))\<lparr>saleItems := saleItems (snd (randomUUID s))
      @ [mkSaleItem itemData (fst (randomUUID s)) (s_id sl)]\<rparr>"
  define s3 where "s3 = snd (updateProductStock now (isi_productId itemData)
      (- isi_quantity itemData) ''sale'' (Some (''Sale '' @ s_invoiceNumber sl))
      (Some (s_userId sl)) s2)"
  have step: "createSale_items now sl (itemData # items) s = createSale_items now sl items s3"
    by (simp add: s2_def s3_def Let_def split_beta mkSaleItem_def)
  have "ledger_ext s s2"
    by (rule ledger_ext_same) (simp_all add: s2_def randomUUID_def)
  moreover have "ledger_ext s2 s3"
    unfolding s3_def using assms by (intro ups_ledger_ext) simp
  moreover have "ledger_ext s3 (createSale_items now sl items s3)"
    by (rule Cons.IH)
  ultimately show ?case
    unfolding step by (blast intro: ledger_ext_trans)
qed

lemma createSale_ledger_ext:
  assumes "is_userId ins \<noteq> []"
  shows "ledger_ext s (snd (createSale now ins items s))"
proof -
  define sl where "sl = mkSale ins (fst (randomUUID s)) now"
  define s2 where "s2 = (snd (randomUUID s))\<lparr>sales := sales (snd (randomUUID s)) @ [sl]\<rparr>"
  define s3 where "s3 = createSale_items now sl items s2"
  have res: "snd (createSale now ins items s) = createSale_customer sl s3"
    by (simp add: createSale_def Let_def split_beta sl_def s2_def s3_def)
  have "s_userId sl \<noteq> []"
    using assms by (simp add: sl_def mkSale_def)
  then have "ledger_ext s2 s3"
    unfolding s3_def by (rule createSale_items_ledger_ext)
  moreover have "ledger_ext s s2"
    by (rule ledger_ext_same) (simp_all add: s2_def randomUUID_def)
  moreover have "ledger_ext s3 (createSale_customer sl s3)"
    by (rule ledger_ext_same) simp_all
  ultimately show ?thesis
    unfolding res by (blast intro: ledger_ext_trans)
qed

lemma createReturn_ledger_ext:
  assumes "ir_userId ins \<noteq> []"
  shows "ledger_ext s (snd (createReturn now ins s))"
proof -
  define ret where "ret = mkReturn ins (fst (randomUUID s)) now"
  define s2 where "s2 = (snd (randomUUID s))\<lparr>returns := returns (snd (randomUUID s)) @ [ret]\<rparr>"
  have res: "snd (createReturn now ins s) =
      snd (updateProductStock now (r_productId ret) (r_quantity ret) ''return''
             (Some (''Return: '' @ r_reason ret)) (Some (r_userId ret)) s2)"
    by (simp add: createReturn_def Let_def split_beta ret_def s2_def)
  have "ledger_ext s s2"
    by (rule ledger_ext_same) (simp_all add: s2_def randomUUID_def)
  moreover have "truthy (Some (r_userId ret))"
    using assms by (simp add: ret_def mkReturn_def)
  then have "ledger_ext s2 (snd (updateProductStock now (r_productId ret) (r_quantity ret)
      ''return'' (Some (''Return: '' @ r_reason ret)) (Some (r_userId ret)) s2))"
    by (rule ups_ledger_ext)
  ultimately show ?thesis
    unfolding res by (blast intro: ledger_ext_trans)
qed

lemma costPrice_ledger_ext:
  "ledger_ext s (case products s pid of None \<Rightarrow> s
     | Some product \<Rightarrow> s\<lparr>products := (products s)(pid \<mapsto> product\<lparr>p_costPrice := c, p_updatedAt := now\<rparr>)\<rparr>)"
proof (cases "products s pid")
  case None
  then show ?thesis by (simp add: ledger_ext_refl)
next
  case (Some p)
  show ?thesis
    unfolding ledger_ext_def
    by (rule exI [of _ "[]"])
       (simp add: Some quantityOf_def movement_sum_def option.map_ident)
qed

lemma receive_items_ledger_ext:
  assumes "userId \<noteq> []"
  shows "ledger_ext s (receive_items now order userId orderItems s)"
proof (induction orderItems arbitrary: s)
  case Nil
  show ?case by (simp add: ledger_ext_refl)
next
  case (Cons item orderItems)
  define s1 where "s1 = snd (updateProductStock now (poi_productId item) (poi_quantity item)
      ''purchase'' (Some (''Purchase Order '' @ po_orderNumber order)) (Some userId) s)"
  define s2 where "s2 = (case products s1 (poi_productId item) of None \<Rightarrow> s1
     | Some product \<Rightarrow> s1\<lparr>products := (products s1)(poi_productId item \<mapsto>
         product\<lparr>p_costPrice := poi_unitCost item, p_updatedAt := now\<rparr>)\<rparr>)"
  have step: "receive_items now order userId (item # orderItems) s
      = receive_items now order userId orderItems s2"
    by (simp add: s1_def s2_def Let_def split_beta cong: option.case_cong)
  have "ledger_ext s s1"
    unfolding s1_def using assms by (intro ups_ledger_ext) simp
  moreover have "ledger_ext s1 s2"
    unfolding s2_def by (rule costPrice_ledger_ext)
  moreover have "ledger_ext s2 (receive_items now order userId orderItems s2)"
    by (rule Cons.IH)
  ultimately show ?case
    unfolding step by (blast intro: ledger_ext_trans)
qed

lemma receivePurchaseOrder_ledger_ext:
  assumes "userId \<noteq> []"
  shows "ledger_ext s (snd (receivePurchaseOrder now oid userId s))"
proof (cases "purchaseOrders s oid")
  case None
  then show ?thesis by (simp add: receivePurchaseOrder_def ledger_ext_refl)
next
  case (Some order)
  show ?thesis
  proof (cases "po_status order = ''received''")
    case True
    with Some show ?thesis by (simp add: receivePurchaseOrder_def ledger_ext_refl)
  next
    case False
    define s1 where "s1 = s\<lparr>purchaseOrders := (purchaseOrders s)
        (oid \<mapsto> order\<lparr>po_status := ''received'', po_receivedAt := Some now\<rparr>)\<rparr>"
    have res: "snd (receivePurchaseOrder now oid userId s) = receive_items now order userId
        (filter (\<lambda>item. poi_purchaseOrderId item = oid) (purchaseOrderItems s1)) s1"
      using Some False by (simp add: receivePurchaseOrder_def Let_def s1_def)
    have "ledger_ext s s1"
      by (rule ledger_ext_same) (simp_all add: s1_def)
    moreover have "ledger_ext s1 (receive_items now order userId
        (filter (\<lambda>item. poi_purchaseOrderId item = oid) (purchaseOrderItems s1)) s1)"
      using assms by (rule receive_items_ledger_ext)
    ultimately show ?thesis
      unfolding res by (blast intro: ledger_ext_trans)
  qed
qed

lemma apply_op_ledger_ext:
  assumes "truthy (op_actor opn)"
  shows "ledger_ext s (apply_op now opn s)"
proof (cases opn)
  case (OpSale ins items)
  with assms show ?thesis by (simp add: createSale_ledger_ext)
next
  case (OpAdjustment pid q reason userId)
  with assms show ?thesis by (simp add: ups_ledger_ext)
next
  case (OpReturn ins)
  with assms show ?thesis by (simp add: createReturn_ledger_ext)
next
  case (OpReceipt oid userId)
  with assms show ?thesis by (simp add: receivePurchaseOrder_ledger_ext)
qed

lemma run_ops_ledger_ext:
  "list_all (\<lambda>(now, opn). truthy (op_actor opn)) ops \<Longrightarrow> ledger_ext s (run_ops ops s)"
proof (induction ops arbitrary: s)
  case Nil
  show ?case by (simp add: ledger_ext_refl)
next
  case (Cons a ops)
  obtain now opn where a: "a = (now, opn)" by (cases a)
  from Cons.prems a have "truthy (op_actor opn)" and rest: "list_all (\<lambda>(now, opn). truthy (op_actor opn)) ops"
    by simp_all
  then have "ledger_ext s (apply_op now opn s)"
    by (simp add: apply_op_ledger_ext)
  moreover have "ledger_ext (apply_op now opn s) (run_ops ops (apply_op now opn s))"
    using rest by (rule Cons.IH)
  ultimately show ?case
    unfolding a by (auto intro: ledger_ext_trans)
qed

section \<open>DatabaseStorage\<close>

text \<open>
  On an existing product, \<open>MemStorage.updateProductStock\<close> adds its argument to the
  quantity (lemma \<open>ups_actor\<close>), while \<open>DatabaseStorage.updateProductStock\<close> stores
  the argument as the new quantity:
\<close>

lemma db_ups_overwrites:
  assumes "products s pid = Some p" and "int4 q"
  shows "products (snd (db_updateProductStock now pid q mt r u s)) pid = Some (p\<lparr>p_quantity := q\<rparr>)"
  using assms
  by (simp add: db_updateProductStock_def Let_def randomUUID_def split: option.splits)

text \<open>
  \<open>DatabaseStorage.createSale\<close> touches the stock only \<open>if (product &&
  product.trackStock)\<close>: a product that is not tracked keeps its row, and no stock
  movement is written for it.
\<close>

lemma db_createSale_items_untracked:
  assumes "products s pid = Some p" and "\<not> p_trackStock p"
  shows "products (snd (db_createSale_items now sl items s)) pid = Some p \<and>
         filter (\<lambda>m. sm_productId m = pid) (stockMovements (snd (db_createSale_items now sl items s)))
           = filter (\<lambda>m. sm_productId m = pid) (stockMovements s)"
  using assms
proof (induction items arbitrary: s)
  case Nil
  then show ?case by simp
next
  case (Cons item items)
  show ?case
  proof (cases "isi_productId item = pid")
    case True
    with Cons.prems show ?thesis
      by (simp add: Let_def split_beta randomUUID_def Cons.IH)
  next
    case False
    with Cons.prems show ?thesis
      by (auto simp: Let_def split_beta randomUUID_def Cons.IH split: option.splits)
  qed
qed

lemma db_createSale_untracked:
  assumes "products s pid = Some p" and "\<not> p_trackStock p"
  shows "products (snd (db_createSale now ins items s)) pid = Some p \<and>
         filter (\<lambda>m. sm_productId m = pid) (stockMovements (snd (db_createSale now ins items s)))
           = filter (\<lambda>m. sm_productId m = pid) (stockMovements s)"
proof -
  define s2 where "s2 = (snd (randomUUID s))\<lparr>sales := sales (snd (randomUUID s)) @
      [mkSale ins (fst (randomUUID s)) now]\<rparr>"
  have p2: "products s2 pid = Some p" and m2: "stockMovements s2 = stockMovements s"
    using assms(1) by (simp_all add: s2_def randomUUID_def)
  from db_createSale_items_untracked [OF p2 assms(2)] m2
  show ?thesis
    using assms(1)
    by (auto simp: db_createSale_def Let_def split_beta s2_def split: option.splits prod.splits)
qed

text \<open>
  \<open>DatabaseStorage.receivePurchaseOrder\<close> has no guard and touches no stock: an
  order that is already received is stamped again and the call returns \<open>true\<close>.
\<close>

lemma db_receivePurchaseOrder_no_guard:
  assumes "purchaseOrders s oid = Some order"
  shows "fst (db_receivePurchaseOrder now oid userId s) = True"
    and "purchaseOrders (snd (db_receivePurchaseOrder now oid userId s)) oid
           = Some (order\<lparr>po_status := ''received'', po_receivedAt := Some now\<rparr>)"
    and "products (snd (db_receivePurchaseOrder now oid userId s)) = products s"
    and "stockMovements (snd (db_receivePurchaseOrder now oid userId s)) = stockMovements s"
  using assms by (simp_all add: db_receivePurchaseOrder_def)

section \<open>MemStorage.getTopProducts\<close>

text \<open>
  \<open>MemStorage.getTopProducts\<close> in general: the result is in descending order of
  revenue, has at most \<open>limit\<close> entries, and every entry is a product of the store with
  the total quantity and total revenue of its sale items.
\<close>

lemma sorted_take_general: "sorted xs \<Longrightarrow> sorted (take n xs)"
  by (metis append_take_drop_id sorted_append)

lemma getTopProducts_sorted:
  "sorted (map (\<lambda>e. - tp_revenue e) (getTopProducts limit s))"
  by (simp add: getTopProducts_def slice0_def Let_def take_map [symmetric] sorted_take_general)

lemma getTopProducts_descending:
  assumes "i \<le> j" and "j < length (getTopProducts limit s)"
  shows "tp_revenue (getTopProducts limit s ! j) \<le> tp_revenue (getTopProducts limit s ! i)"
proof -
  have "map (\<lambda>e. - tp_revenue e) (getTopProducts limit s) ! i
      \<le> map (\<lambda>e. - tp_revenue e) (getTopProducts limit s) ! j"
    using assms by (intro sorted_nth_mono getTopProducts_sorted) simp_all
  with assms show ?thesis by simp
qed

lemma getTopProducts_length:
  "0 \<le> limit \<Longrightarrow> length (getTopProducts (Some limit) s) \<le> nat limit"
  by (simp add: getTopProducts_def slice0_def Let_def)

lemma map_of_mapSet: "map_of (mapSet k v kvs) = (map_of kvs)(k \<mapsto> v)"
  by (induction kvs) auto

lemma keys_mapSet: "fst ` set (mapSet k v kvs) = insert k (fst ` set kvs)"
proof (induction kvs)
  case Nil
  show ?case by simp
next
  case (Cons kv kvs)
  obtain k' v' where kv: "kv = (k', v')" by (cases kv)
  show ?case
    unfolding kv by (cases "k' = k") (simp_all add: Cons.IH insert_commute)
qed

lemma distinct_mapSet: "distinct (map fst kvs) \<Longrightarrow> distinct (map fst (mapSet k v kvs))"
proof (induction kvs)
  case Nil
  show ?case by simp
next
  case (Cons kv kvs)
  obtain k' v' where kv: "kv = (k', v')" by (cases kv)
  from Cons show ?case
    unfolding kv by (cases "k' = k") (simp_all add: keys_mapSet)
qed

lemma map_of_addSale:
  "map_of (addSale acc item) pid =
     (if pid = si_productId item
      then Some (case map_of acc pid of
                   None \<Rightarrow> \<lparr>totalSold = si_quantity item, revenue = si_totalPrice item\<rparr>
                 | Some e \<Rightarrow> \<lparr>totalSold = totalSold e + si_quantity item,
                               revenue = revenue e + si_totalPrice item\<rparr>)
      else map_of acc pid)"
  by (simp add: addSale_def Let_def map_of_mapSet split: option.splits)

lemma map_of_foldl_addSale:
  "map_of (foldl addSale acc items) pid =
     (case map_of acc pid of
        None \<Rightarrow> if pid \<in> si_productId ` set items then Some (soldStats pid items) else None
      | Some e \<Rightarrow> Some \<lparr>totalSold = totalSold e + totalSold (soldStats pid items),
                         revenue = revenue e + revenue (soldStats pid items)\<rparr>)"
proof (induction items arbitrary: acc)
  case Nil
  show ?case by (simp add: soldStats_def split: option.splits)
next
  case (Cons item items)
  show ?case
    by (simp add: Cons.IH map_of_addSale soldStats_def add.assoc split: option.splits)
qed

lemma distinct_foldl_addSale:
  "distinct (map fst acc) \<Longrightarrow> distinct (map fst (foldl addSale acc items))"
  by (induction items arbitrary: acc) (simp_all add: addSale_def Let_def distinct_mapSet)

lemma productSales_entry:
  assumes "(pid, st) \<in> set (foldl addSale [] items)"
  shows "pid \<in> si_productId ` set items \<and> st = soldStats pid items"
proof -
  have "distinct (map fst (foldl addSale [] items))"
    by (rule distinct_foldl_addSale) simp
  with assms have "map_of (foldl addSale [] items) pid = Some st"
    by simp
  then show ?thesis
    by (simp add: map_of_foldl_addSale split: if_splits)
qed

lemma getTopProducts_entry:
  assumes "e \<in> set (getTopProducts limit s)"
  shows "\<exists>pid. pid \<in> si_productId ` set (saleItems s) \<and> products s pid = Some (tp_product e) \<and>
           tp_totalSold e = totalSold (soldStats pid (saleItems s)) \<and>
           tp_revenue e = revenue (soldStats pid (saleItems s))"
proof -
  from assms have "e \<in> set (List.map_filter (topEntry s) (foldl addSale [] (saleItems s)))"
    using set_take_subset by (fastforce simp: getTopProducts_def slice0_def Let_def split: if_splits)
  then obtain pid st where in_ps: "(pid, st) \<in> set (foldl addSale [] (saleItems s))"
    and entry: "topEntry s (pid, st) = Some e"
    by (auto simp: List.map_filter_def)
  from productSales_entry [OF in_ps] entry show ?thesis
    by (auto simp: topEntry_def split: option.splits)
qed

section \<open>The scenarios\<close>

lemma quantityOf_storeP: "quantityOf storeP pid = (if pid = ''P'' then Some 5 else None)"
  by (simp add: quantityOf_def storeP_def emptyStorage_def productP_def)

lemma quantityOf_storeU: "quantityOf storeU pid = (if pid = ''U'' then Some 5 else None)"
  by (simp add: quantityOf_def storeU_def emptyStorage_def productU_def)

section \<open>C1: a stock mutation below zero\<close>

text \<open>
  C1, as stated, fails: \<open>MemStorage.updateProductStock\<close> has no stock check. Product P
  is tracked and has 5 in stock; a mutation by -10 returns \<open>true\<close>, leaves P at -5
  and writes the stock movement. So does the sale of 10 units of P (scenario B), through
  the call that \<open>createSale\<close> makes for the line.
\<close>

theorem updateProductStock_insufficient_counterexample:
  "p_trackStock productP \<and> products storeP ''P'' = Some productP \<and>
   p_quantity productP + (- 10) < 0 \<and>
   fst (updateProductStock 1 ''P'' (- 10) ''sale'' (Some ''Sale INV-1'') (Some ''u1'') storeP)
     = True \<and>
   quantityOf
     (snd (updateProductStock 1 ''P'' (- 10) ''sale'' (Some ''Sale INV-1'') (Some ''u1'') storeP))
     ''P'' = Some (- 5) \<and>
   map sm_quantity (stockMovements
     (snd (updateProductStock 1 ''P'' (- 10) ''sale'' (Some ''Sale INV-1'') (Some ''u1'') storeP)))
     = [- 10] \<and>
   quantityOf (snd (createSale 1 saleHeader [lineP 10] storeP)) ''P'' = Some (- 5) \<and>
   map movementEntry (stockMovements (snd (createSale 1 saleHeader [lineP 10] storeP)))
     = [(''P'', ''sale'', - 10)]"
proof -
  have "quantityOf (snd (createSale 1 saleHeader [lineP 10] storeP)) ''P'' = Some (- 5)"
    and "map movementEntry (stockMovements (snd (createSale 1 saleHeader [lineP 10] storeP)))
           = [(''P'', ''sale'', - 10)]"
    by (simp_all add: createSale_quantityOf createSale_movements quantityOf_storeP
        saleHeader_def lineP_def soldQuantity_def)
       (simp add: storeP_def emptyStorage_def)
  then show ?thesis
    by (simp add: updateProductStock_def storeP_def emptyStorage_def productP_def Let_def
        randomUUID_def quantityOf_def)
qed

text \<open>
  C1, amended: for every product with \<open>trackStock = true\<close> and quantity \<open>q\<close>, a
  \<open>MemStorage.updateProductStock\<close> call whose signed delta \<open>d\<close> satisfies \<open>q + d < 0\<close>
  does not fail: it returns \<open>true\<close>, the product's quantity becomes \<open>q + d\<close>, and one
  stock movement with the delta \<open>d\<close> is written when a non-empty user id is given
  (none otherwise). The same holds of the call that \<open>createSale\<close> makes per line: a
  sale of \<open>n\<close> units with \<open>q - n < 0\<close> leaves the product at \<open>q - n\<close>.
\<close>

theorem updateProductStock_allows_negative:
  assumes "products s pid = Some p" and "p_trackStock p" and "p_quantity p + d < 0"
  shows "fst (updateProductStock now pid d mt r u s) = True \<and>
         products (snd (updateProductStock now pid d mt r u s)) pid
           = Some (p\<lparr>p_quantity := p_quantity p + d, p_updatedAt := now\<rparr>) \<and>
         map movementEntry (stockMovements (snd (updateProductStock now pid d mt r u s)))
           = map movementEntry (stockMovements s) @ (if truthy u then [(pid, mt, d)] else []) \<and>
         quantityOf (snd (createSale now ins
             [\<lparr>isi_productId = pid, isi_quantity = - d, isi_unitPrice = price,
               isi_totalPrice = amount\<rparr>] s)) pid
           = Some (p_quantity p + d)"
proof -
  have q: "quantityOf s pid = Some (p_quantity p)"
    using assms(1) by (simp add: quantityOf_def)
  have "quantityOf (snd (createSale now ins
             [\<lparr>isi_productId = pid, isi_quantity = - d, isi_unitPrice = price,
               isi_totalPrice = amount\<rparr>] s)) pid
           = Some (p_quantity p + d)"
    by (simp add: createSale_quantityOf q soldQuantity_def)
  moreover have "map movementEntry (stockMovements (snd (updateProductStock now pid d mt r u s)))
      = map movementEntry (stockMovements s) @ (if truthy u then [(pid, mt, d)] else [])"
    by (simp add: ups_movements q)
  moreover have "fst (updateProductStock now pid d mt r u s) = True \<and>
         products (snd (updateProductStock now pid d mt r u s)) pid
           = Some (p\<lparr>p_quantity := p_quantity p + d, p_updatedAt := now\<rparr>)"
  proof (cases "truthy u")
    case False
    with assms(1) show ?thesis by (simp add: ups_no_actor)
  next
    case True
    then obtain uid where "u = Some uid" "uid \<noteq> []" by (cases u) auto
    with assms(1) show ?thesis by (simp add: ups_actor)
  qed
  ultimately show ?thesis by blast
qed

theorem updateProductStock_allows_negative_witness:
  "products storeP ''P'' = Some productP \<and> p_trackStock productP \<and>
   p_quantity productP + (- 10) < 0 \<and>
   fst (updateProductStock 1 ''P'' (- 10) ''sale'' None (Some ''u1'') storeP) = True \<and>
   products (snd (updateProductStock 1 ''P'' (- 10) ''sale'' None (Some ''u1'') storeP)) ''P''
     = Some (productP\<lparr>p_quantity := - 5, p_updatedAt := 1\<rparr>) \<and>
   quantityOf (snd (createSale 1 saleHeader
       [\<lparr>isi_productId = ''P'', isi_quantity = 10, isi_unitPrice = 500,
         isi_totalPrice = 5000\<rparr>] storeP)) ''P''
     = Some (- 5)"
  using updateProductStock_allows_negative
    [of storeP "''P''" productP "- 10" 1 "''sale''" None "Some ''u1''" saleHeader 500 5000]
  by (simp add: storeP_def emptyStorage_def productP_def)

section \<open>C2: a sale with a line for a missing product\<close>

text \<open>
  C2, as stated, fails: \<open>MemStorage.createSale\<close> never rejects a sale and nothing is
  rolled back. A sale of 3 units of P and 1 unit of a product that is not in the store
  persists the sale header and both sale items, takes P from 5 to 2 and writes the stock
  movement of P.
\<close>

theorem createSale_atomicity_counterexample:
  "products storeP (isi_productId lineGhost) = None \<and>
   length (sales (snd (createSale 1 saleHeader [lineP 3, lineGhost] storeP))) = 1 \<and>
   map itemDataOf (saleItems (snd (createSale 1 saleHeader [lineP 3, lineGhost] storeP)))
     = [lineP 3, lineGhost] \<and>
   map movementEntry (stockMovements (snd (createSale 1 saleHeader [lineP 3, lineGhost] storeP)))
     = [(''P'', ''sale'', - 3)] \<and>
   quantityOf storeP ''P'' = Some 5 \<and>
   quantityOf (snd (createSale 1 saleHeader [lineP 3, lineGhost] storeP)) ''P'' = Some 2"
  by (simp add: createSale_sales createSale_saleItems createSale_quantityOf createSale_movements
      quantityOf_storeP saleHeader_def lineP_def lineGhost_def soldQuantity_def)
     (simp add: storeP_def emptyStorage_def)

text \<open>
  \<open>DatabaseStorage.createSale\<close> on the same request: the insert of the second sale
  item violates the foreign key on the product and the call ends with that error, but
  the sale header, the first sale item and the stock effect of the first line stay
  written.
\<close>

lemma db_createSale_missing_product_partial:
  "fst (db_createSale 1 saleHeader [lineP 3, lineGhost] storeP) = Inl ForeignKeyViolation \<and>
   length (sales (snd (db_createSale 1 saleHeader [lineP 3, lineGhost] storeP))) = 1 \<and>
   map itemDataOf (saleItems (snd (db_createSale 1 saleHeader [lineP 3, lineGhost] storeP)))
     = [lineP 3] \<and>
   quantityOf (snd (db_createSale 1 saleHeader [lineP 3, lineGhost] storeP)) ''P'' = Some 2 \<and>
   map movementEntry (stockMovements (snd (db_createSale 1 saleHeader [lineP 3, lineGhost] storeP)))
     = [(''P'', ''sale'', - 3)]"
  by (simp add: db_createSale_def storeP_def emptyStorage_def saleHeader_def lineP_def
      lineGhost_def productP_def userU_def Let_def randomUUID_def int4_def mkSale_def
      mkSaleItem_def itemDataOf_def quantityOf_def movementEntry_def)

text \<open>
  C2, amended: a \<open>MemStorage.createSale\<close> request in which some line references a
  product id that does not exist in the store is not rejected. The sale header is
  persisted and returned and one sale item per line is persisted (the line of the missing
  product included). The line of the missing product has no stock effect: no stock
  movement is written for that product id and the product is still absent. Every tracked
  product of the store has the quantities of its lines subtracted and, when the user id of
  the sale is non-empty, one stock movement of type \<open>'sale'\<close> written per line.
\<close>

theorem createSale_missing_product_persists:
  assumes "missing \<in> set items" and "products s (isi_productId missing) = None"
  shows "sales (snd (createSale now ins items s)) = sales s @ [fst (createSale now ins items s)] \<and>
    map itemDataOf (saleItems (snd (createSale now ins items s)))
      = map itemDataOf (saleItems s) @ items \<and>
    missing \<in> set (map itemDataOf (saleItems (snd (createSale now ins items s)))) \<and>
    products (snd (createSale now ins items s)) (isi_productId missing) = None \<and>
    filter (\<lambda>e. fst e = isi_productId missing)
        (map movementEntry (stockMovements (snd (createSale now ins items s))))
      = filter (\<lambda>e. fst e = isi_productId missing) (map movementEntry (stockMovements s)) \<and>
    (products s pid = Some p \<and> p_trackStock p \<longrightarrow>
       quantityOf (snd (createSale now ins items s)) pid
         = Some (p_quantity p - soldQuantity pid items) \<and>
       filter (\<lambda>e. fst e = pid)
           (map movementEntry (stockMovements (snd (createSale now ins items s))))
         = filter (\<lambda>e. fst e = pid) (map movementEntry (stockMovements s))
           @ (if is_userId ins = [] then []
              else map (\<lambda>i. (pid, ''sale'', - isi_quantity i))
                     (filter (\<lambda>i. isi_productId i = pid) items)))"
proof -
  have none: "quantityOf s (isi_productId missing) = None"
    using assms(2) by (simp add: quantityOf_def)
  then have "quantityOf (snd (createSale now ins items s)) (isi_productId missing) = None"
    by (simp add: createSale_quantityOf)
  then have absent: "products (snd (createSale now ins items s)) (isi_productId missing) = None"
    unfolding quantityOf_def by simp
  have persisted: "missing \<in> set (map itemDataOf (saleItems (snd (createSale now ins items s))))"
    using assms(1) by (simp only: createSale_saleItems set_append) simp
  have silent: "filter (\<lambda>e. fst e = isi_productId missing)
        (map movementEntry (stockMovements (snd (createSale now ins items s))))
      = filter (\<lambda>e. fst e = isi_productId missing) (map movementEntry (stockMovements s))"
    by (simp add: createSale_movements_of none)
  have tracked: "quantityOf (snd (createSale now ins items s)) pid
         = Some (p_quantity p - soldQuantity pid items) \<and>
       filter (\<lambda>e. fst e = pid)
           (map movementEntry (stockMovements (snd (createSale now ins items s))))
         = filter (\<lambda>e. fst e = pid) (map movementEntry (stockMovements s))
           @ (if is_userId ins = [] then []
              else map (\<lambda>i. (pid, ''sale'', - isi_quantity i))
                     (filter (\<lambda>i. isi_productId i = pid) items))"
    if "products s pid = Some p"
  proof -
    from that have q: "quantityOf s pid = Some (p_quantity p)"
      by (simp add: quantityOf_def)
    show ?thesis
      by (simp add: createSale_quantityOf createSale_movements_of q)
  qed
  from absent persisted silent tracked show ?thesis
    using createSale_sales createSale_saleItems by blast
qed

theorem createSale_missing_product_persists_witness:
  "lineGhost \<in> set [lineP 3, lineGhost] \<and> products storeP (isi_productId lineGhost) = None \<and>
   products storeP ''P'' = Some productP \<and> p_trackStock productP \<and>
   sales (snd (createSale 1 saleHeader [lineP 3, lineGhost] storeP))
     = sales storeP @ [fst (createSale 1 saleHeader [lineP 3, lineGhost] storeP)] \<and>
   lineGhost \<in> set (map itemDataOf
     (saleItems (snd (createSale 1 saleHeader [lineP 3, lineGhost] storeP)))) \<and>
   products (snd (createSale 1 saleHeader [lineP 3, lineGhost] storeP)) (isi_productId lineGhost)
     = None \<and>
   quantityOf (snd (createSale 1 saleHeader [lineP 3, lineGhost] storeP)) ''P'' = Some 2 \<and>
   filter (\<lambda>e. fst e = ''P'')
       (map movementEntry
          (stockMovements (snd (createSale 1 saleHeader [lineP 3, lineGhost] storeP))))
     = [(''P'', ''sale'', - 3)]"
  using createSale_missing_product_persists
    [of lineGhost "[lineP 3, lineGhost]" storeP 1 saleHeader "''P''" productP]
  by (simp add: storeP_def emptyStorage_def lineGhost_def lineP_def productP_def saleHeader_def
      soldQuantity_def)

section \<open>C3: quantity and movement log\<close>

text \<open>
  On \<open>MemStorage\<close> the invariant holds: for every tracked product and every finite
  sequence of ledger operations that each carry an acting user (as every call site
  passes one), the final quantity is the initial quantity plus the sum of the signed
  quantities of the stock movements recorded for that product by the sequence.
\<close>

lemma ledger_sum_with_actor:
  assumes "list_all (\<lambda>(now, opn). truthy (op_actor opn)) ops"
    and "products s pid = Some p" and "p_trackStock p"
  shows "\<exists>p'. products (run_ops ops s) pid = Some p' \<and>
           p_quantity p' = p_quantity p
             + movement_sum pid
                 (drop (length (stockMovements s)) (stockMovements (run_ops ops s)))"
proof -
  from run_ops_ledger_ext [OF assms(1), of s] obtain ms where
    ms: "stockMovements (run_ops ops s) = stockMovements s @ ms"
    "\<And>pid. quantityOf (run_ops ops s) pid
       = map_option (\<lambda>q. q + movement_sum pid ms) (quantityOf s pid)"
    unfolding ledger_ext_def by blast
  from ms(2) [of pid] assms(2) show ?thesis
    by (auto simp: quantityOf_def ms(1))
qed

text \<open>
  C3 does not hold of \<open>DatabaseStorage.updateProductStock\<close>, which stores its
  argument as the new quantity and records the same number as the delta of the stock
  movement. A manual adjustment by +3 of the tracked product P (5 in stock, no
  movements yet) by user \<open>u1\<close> leaves P at 3, while the initial quantity plus the
  recorded deltas is 8. On \<open>MemStorage\<close> the same adjustment leaves P at 8.
\<close>

theorem ledger_sum_database_divergence:
  "p_trackStock productP \<and> quantityOf storeP ''P'' = Some 5 \<and> stockMovements storeP = [] \<and>
   fst (db_updateProductStock 1 ''P'' 3 ''adjustment'' (Some ''recount'') (Some ''u1'') storeP)
     = True \<and>
   quantityOf
     (snd (db_updateProductStock 1 ''P'' 3 ''adjustment'' (Some ''recount'') (Some ''u1'') storeP))
     ''P'' = Some 3 \<and>
   5 + movement_sum ''P'' (stockMovements
     (snd (db_updateProductStock 1 ''P'' 3 ''adjustment'' (Some ''recount'') (Some ''u1'') storeP)))
     = 8 \<and>
   quantityOf
     (run_ops [(1, OpAdjustment ''P'' 3 (Some ''recount'') (Some ''u1''))] storeP) ''P''
     = Some 8 \<and>
   5 + movement_sum ''P'' (stockMovements
     (run_ops [(1, OpAdjustment ''P'' 3 (Some ''recount'') (Some ''u1''))] storeP))
     = 8"
  by (simp add: db_updateProductStock_def updateProductStock_def storeP_def emptyStorage_def
      productP_def userU_def Let_def randomUUID_def int4_def quantityOf_def movement_sum_def)

section \<open>C4: the two stores on updateProductStock\<close>

text \<open>
  C4 does not hold of the code: the two stores differ. On product P with 5 in stock,
  \<open>updateProductStock(P, 3, 'adjustment', 'recount', u1)\<close> on \<open>MemStorage\<close> gives
  quantity 8 with \<open>updatedAt\<close> stamped, on \<open>DatabaseStorage\<close> quantity 3 with
  \<open>updatedAt\<close> untouched; both append a stock movement with quantity 3.
\<close>

theorem updateProductStock_stores_differ:
  "quantityOf storeP ''P'' = Some 5 \<and>
   fst (updateProductStock 1 ''P'' 3 ''adjustment'' (Some ''recount'') (Some ''u1'') storeP) = True \<and>
   quantityOf (snd (updateProductStock 1 ''P'' 3 ''adjustment'' (Some ''recount'') (Some ''u1'') storeP)) ''P''
     = Some 8 \<and>
   map_option p_updatedAt
     (products (snd (updateProductStock 1 ''P'' 3 ''adjustment'' (Some ''recount'') (Some ''u1'') storeP)) ''P'')
     = Some 1 \<and>
   map movementEntry (stockMovements
       (snd (updateProductStock 1 ''P'' 3 ''adjustment'' (Some ''recount'') (Some ''u1'') storeP)))
     = [(''P'', ''adjustment'', 3)] \<and>
   fst (db_updateProductStock 1 ''P'' 3 ''adjustment'' (Some ''recount'') (Some ''u1'') storeP) = True \<and>
   quantityOf (snd (db_updateProductStock 1 ''P'' 3 ''adjustment'' (Some ''recount'') (Some ''u1'') storeP)) ''P''
     = Some 3 \<and>
   map_option p_updatedAt
     (products (snd (db_updateProductStock 1 ''P'' 3 ''adjustment'' (Some ''recount'') (Some ''u1'') storeP)) ''P'')
     = Some 0 \<and>
   map movementEntry (stockMovements
       (snd (db_updateProductStock 1 ''P'' 3 ''adjustment'' (Some ''recount'') (Some ''u1'') storeP)))
     = [(''P'', ''adjustment'', 3)]"
  by (simp add: updateProductStock_def db_updateProductStock_def storeP_def emptyStorage_def
      productP_def userU_def Let_def randomUUID_def int4_def quantityOf_def movementEntry_def)

section \<open>C5: receiving an order that is not pending\<close>

text \<open>
  C5, as stated, fails: the guard of \<open>MemStorage.receivePurchaseOrder\<close> is
  \<open>order.status === 'received'\<close>, so an order whose status is \<open>'cancelled'\<close> is
  received: the call returns \<open>true\<close>, the order becomes \<open>'received'\<close>, P goes from 2 to
  22 and one stock movement is written.
\<close>

theorem receive_cancelled_counterexample:
  "purchaseOrders (storePO ''cancelled'') ''po1'' = Some (orderPO ''cancelled'') \<and>
   po_status (orderPO ''cancelled'') \<noteq> ''pending'' \<and>
   fst (receivePurchaseOrder 7 ''po1'' ''u1'' (storePO ''cancelled'')) = True \<and>
   map_option po_status
     (purchaseOrders (snd (receivePurchaseOrder 7 ''po1'' ''u1'' (storePO ''cancelled''))) ''po1'')
     = Some ''received'' \<and>
   quantityOf (storePO ''cancelled'') ''P'' = Some 2 \<and>
   quantityOf (snd (receivePurchaseOrder 7 ''po1'' ''u1'' (storePO ''cancelled''))) ''P'' = Some 22 \<and>
   length (stockMovements (snd (receivePurchaseOrder 7 ''po1'' ''u1'' (storePO ''cancelled'')))) = 1"
  by (simp add: receivePurchaseOrder_def updateProductStock_def storePO_def emptyStorage_def
      productP2_def productP_def orderPO_def itemPO_def Let_def randomUUID_def quantityOf_def)

text \<open>
  C5, amended: for every purchase order whose status is \<open>'received'\<close>,
  \<open>MemStorage.receivePurchaseOrder\<close> fails (returns \<open>false\<close>) and performs no state
  change. An order with any other status (\<open>'pending'\<close>, \<open>'cancelled'\<close>) is received: the
  call returns \<open>true\<close> and sets the status to \<open>'received'\<close> and \<open>receivedAt\<close>; receiving
  the same order again then fails and changes nothing, so the stock of an order is never
  applied twice.
\<close>

theorem receivePurchaseOrder_guard:
  "(purchaseOrders s oid = Some order \<and> po_status order = ''received''
      \<longrightarrow> receivePurchaseOrder now oid userId s = (False, s)) \<and>
   (purchaseOrders t oid' = Some order' \<and> po_status order' \<noteq> ''received''
      \<longrightarrow> fst (receivePurchaseOrder now' oid' userId' t) = True \<and>
          purchaseOrders (snd (receivePurchaseOrder now' oid' userId' t)) oid'
            = Some (order'\<lparr>po_status := ''received'', po_receivedAt := Some now'\<rparr>) \<and>
          receivePurchaseOrder now'' oid' userId'' (snd (receivePurchaseOrder now' oid' userId' t))
            = (False, snd (receivePurchaseOrder now' oid' userId' t)))"
proof (intro conjI impI)
  assume "purchaseOrders s oid = Some order \<and> po_status order = ''received''"
  then show "receivePurchaseOrder now oid userId s = (False, s)"
    by (simp add: receive_received)
next
  assume a: "purchaseOrders t oid' = Some order' \<and> po_status order' \<noteq> ''received''"
  then show "fst (receivePurchaseOrder now' oid' userId' t) = True"
    by (simp add: receive_other)
  from a show st: "purchaseOrders (snd (receivePurchaseOrder now' oid' userId' t)) oid'
            = Some (order'\<lparr>po_status := ''received'', po_receivedAt := Some now'\<rparr>)"
    by (simp add: receive_other)
  show "receivePurchaseOrder now'' oid' userId'' (snd (receivePurchaseOrder now' oid' userId' t))
            = (False, snd (receivePurchaseOrder now' oid' userId' t))"
    by (rule receive_received [OF st]) simp
qed

theorem receivePurchaseOrder_guard_witness:
  "purchaseOrders (storePO ''received'') ''po1'' = Some (orderPO ''received'') \<and>
   po_status (orderPO ''received'') = ''received'' \<and>
   receivePurchaseOrder 7 ''po1'' ''u1'' (storePO ''received'') = (False, storePO ''received'') \<and>
   purchaseOrders (storePO ''pending'') ''po1'' = Some (orderPO ''pending'') \<and>
   po_status (orderPO ''pending'') \<noteq> ''received'' \<and>
   receivePurchaseOrder 8 ''po1'' ''u1'' (snd (receivePurchaseOrder 7 ''po1'' ''u1'' (storePO ''pending'')))
     = (False, snd (receivePurchaseOrder 7 ''po1'' ''u1'' (storePO ''pending'')))"
  using receivePurchaseOrder_guard
    [of "storePO ''received''" "''po1''" "orderPO ''received''" 7 "''u1''"
        "storePO ''pending''" "''po1''" "orderPO ''pending''" 7 "''u1''" 8 "''u1''"]
  by (simp add: storePO_def emptyStorage_def orderPO_def)

section \<open>C6: scenario C\<close>

text \<open>
  C6: receiving a pending purchase order with exactly one item
  \<open>{productId: P, quantity: 20, unitCost: 4.00}\<close>, where P exists with quantity 2 and
  cost price 3.50, by an acting user (a non-empty user id) succeeds: P has quantity 22 and
  cost price 4.00, exactly one stock movement is added, of type \<open>'purchase'\<close> with delta
  +20 for P, and the order has status \<open>'received'\<close> and \<open>receivedAt\<close> set.
\<close>

theorem receive_scenario_C:
  assumes "purchaseOrders s oid = Some order" and "po_status order = ''pending''"
    and "filter (\<lambda>item. poi_purchaseOrderId item = oid) (purchaseOrderItems s) = [item]"
    and "poi_productId item = P" and "poi_quantity item = 20" and "poi_unitCost item = 400"
    and "products s P = Some p" and "p_quantity p = 2" and "p_costPrice p = 350"
    and "userId \<noteq> []"
  shows "fst (receivePurchaseOrder now oid userId s) = True \<and>
    (\<exists>p'. products (snd (receivePurchaseOrder now oid userId s)) P = Some p' \<and>
           p_quantity p' = 22 \<and> p_costPrice p' = 400) \<and>
    (\<exists>m. stockMovements (snd (receivePurchaseOrder now oid userId s)) = stockMovements s @ [m] \<and>
          sm_productId m = P \<and> sm_movementType m = ''purchase'' \<and> sm_quantity m = 20) \<and>
    (\<exists>order'. purchaseOrders (snd (receivePurchaseOrder now oid userId s)) oid = Some order' \<and>
          po_status order' = ''received'' \<and> po_receivedAt order' = Some now)"
  using assms
  by (simp add: receivePurchaseOrder_def Let_def ups_actor)

theorem receive_scenario_C_witness:
  "purchaseOrders (storePO ''pending'') ''po1'' = Some (orderPO ''pending'') \<and>
   po_status (orderPO ''pending'') = ''pending'' \<and>
   filter (\<lambda>item. poi_purchaseOrderId item = ''po1'') (purchaseOrderItems (storePO ''pending''))
     = [itemPO] \<and>
   poi_productId itemPO = ''P'' \<and> poi_quantity itemPO = 20 \<and> poi_unitCost itemPO = 400 \<and>
   products (storePO ''pending'') ''P'' = Some productP2 \<and> p_quantity productP2 = 2 \<and>
   p_costPrice productP2 = 350 \<and> ''u1'' \<noteq> [] \<and>
   fst (receivePurchaseOrder 7 ''po1'' ''u1'' (storePO ''pending'')) = True \<and>
   (\<exists>p'. products (snd (receivePurchaseOrder 7 ''po1'' ''u1'' (storePO ''pending''))) ''P'' = Some p' \<and>
          p_quantity p' = 22 \<and> p_costPrice p' = 400)"
  using receive_scenario_C
    [of "storePO ''pending''" "''po1''" "orderPO ''pending''" itemPO "''P''" productP2 "''u1''" 7]
  by (simp add: storePO_def emptyStorage_def orderPO_def itemPO_def productP2_def productP_def)

section \<open>C7: a sale of a product that is not tracked\<close>

text \<open>
  C7 does not hold of \<open>MemStorage.createSale\<close>, which calls \<open>updateProductStock\<close>
  for every line without reading \<open>trackStock\<close>. A sale of 2 units of the untracked
  product U (5 in stock) persists the sale item in both stores; \<open>MemStorage\<close> takes U
  to 3 and writes a stock movement of -2, \<open>DatabaseStorage\<close> leaves U at 5 and writes
  no movement.
\<close>

theorem createSale_untracked_divergence:
  "products storeU ''U'' = Some productU \<and> p_trackStock productU = False \<and>
   quantityOf storeU ''U'' = Some 5 \<and>
   map itemDataOf (saleItems (snd (createSale 1 saleHeader [lineU 2] storeU))) = [lineU 2] \<and>
   quantityOf (snd (createSale 1 saleHeader [lineU 2] storeU)) ''U'' = Some 3 \<and>
   map movementEntry (stockMovements (snd (createSale 1 saleHeader [lineU 2] storeU)))
     = [(''U'', ''sale'', - 2)] \<and>
   map itemDataOf (saleItems (snd (db_createSale 1 saleHeader [lineU 2] storeU))) = [lineU 2] \<and>
   quantityOf (snd (db_createSale 1 saleHeader [lineU 2] storeU)) ''U'' = Some 5 \<and>
   stockMovements (snd (db_createSale 1 saleHeader [lineU 2] storeU)) = []"
proof -
  have mem: "map itemDataOf (saleItems (snd (createSale 1 saleHeader [lineU 2] storeU))) = [lineU 2]"
    "quantityOf (snd (createSale 1 saleHeader [lineU 2] storeU)) ''U'' = Some 3"
    "map movementEntry (stockMovements (snd (createSale 1 saleHeader [lineU 2] storeU)))
       = [(''U'', ''sale'', - 2)]"
    by (simp_all add: createSale_saleItems createSale_quantityOf createSale_movements
        quantityOf_storeU saleHeader_def lineU_def soldQuantity_def)
       (simp_all add: storeU_def emptyStorage_def)
  have db: "map itemDataOf (saleItems (snd (db_createSale 1 saleHeader [lineU 2] storeU))) = [lineU 2]"
    "quantityOf (snd (db_createSale 1 saleHeader [lineU 2] storeU)) ''U'' = Some 5"
    "stockMovements (snd (db_createSale 1 saleHeader [lineU 2] storeU)) = []"
    by (simp_all add: db_createSale_def storeU_def emptyStorage_def saleHeader_def lineU_def
        productU_def userU_def Let_def randomUUID_def int4_def mkSale_def mkSaleItem_def
        itemDataOf_def quantityOf_def)
  show ?thesis
    using mem db by (simp add: quantityOf_storeU) (simp add: storeU_def emptyStorage_def productU_def)
qed

section \<open>C8: customer totals on a sale\<close>

text \<open>
  C8: when the sale header carries the (non-empty) id of an existing customer with
  \<open>totalSpent\<close> \<open>s\<close> and \<open>loyaltyPoints\<close> \<open>p\<close>, after \<open>MemStorage.createSale\<close>
  that customer has \<open>totalSpent = s + sale.total\<close> and \<open>loyaltyPoints = p +
  floor(sale.total)\<close> (amounts in hundredths, so the floor of the total is
  \<open>total div 100\<close>) and no other customer has changed; when no customer id is attached,
  no customer record changes.
\<close>

theorem createSale_customer_totals:
  "(is_customerId ins = Some cid \<and> cid \<noteq> [] \<and> customers s cid = Some c
      \<longrightarrow> customers (snd (createSale now ins items s))
            = (customers s)(cid \<mapsto> c\<lparr>c_totalSpent := c_totalSpent c + s_total (fst (createSale now ins items s)),
                 c_loyaltyPoints := c_loyaltyPoints c + s_total (fst (createSale now ins items s)) div 100\<rparr>)) \<and>
   (is_customerId ins' = None
      \<longrightarrow> customers (snd (createSale now' ins' items' s')) = customers s')"
  by (simp add: createSale_customers createSale_result createSale_customer_def mkSale_def
      Let_def)

theorem createSale_customer_totals_witness:
  "is_customerId (saleHeader\<lparr>is_customerId := Some ''c1'', is_total := 1599\<rparr>) = Some ''c1'' \<and>
   ''c1'' \<noteq> [] \<and> customers storeC ''c1'' = Some customerC \<and>
   customers (snd (createSale 4 (saleHeader\<lparr>is_customerId := Some ''c1'', is_total := 1599\<rparr>)
                     [lineP 3] storeC)) ''c1''
     = Some (customerC\<lparr>c_totalSpent := 3649, c_loyaltyPoints := 22\<rparr>) \<and>
   is_customerId saleHeader = None \<and>
   customers (snd (createSale 4 saleHeader [lineP 3] storeC)) = customers storeC"
  using createSale_customer_totals
    [of "saleHeader\<lparr>is_customerId := Some ''c1'', is_total := 1599\<rparr>" "''c1''" storeC customerC
        4 "[lineP 3]" saleHeader 4 "[lineP 3]" storeC]
  by (simp add: storeC_def storeP_def emptyStorage_def saleHeader_def customerC_def
      createSale_result mkSale_def)

section \<open>C9: top products\<close>

text \<open>
  C9 does not hold of \<open>DatabaseStorage.getTopProducts\<close>, which returns the empty
  array. Over the history of scenario E, \<open>getTopProducts(2)\<close> on \<open>MemStorage\<close> is
  \<open>[B, A]\<close> with the aggregates of B (5 sold, revenue 250) and A (2 sold, revenue
  100); on \<open>DatabaseStorage\<close> it is \<open>[]\<close>.
\<close>

theorem getTopProducts_stores_differ:
  "map (\<lambda>e. (p_id (tp_product e), tp_totalSold e, tp_revenue e)) (getTopProducts (Some 2) storeE)
     = [(''B'', 5, 25000), (''A'', 2, 10000)] \<and>
   db_getTopProducts (Some 2) storeE = []"
  by (simp add: getTopProducts_def db_getTopProducts_def storeE_def emptyStorage_def
      soldItem_def productNamed_def addSale_def topEntry_def slice0_def Let_def)

section \<open>C10: a return of a product that does not exist\<close>

text \<open>
  C10: if \<open>createReturn\<close> is called with a product id that is not in the store, the
  return row is persisted all the same and is returned to the caller, while no stock
  movement is written and no product changes.
\<close>

theorem createReturn_missing_product:
  assumes "products s (ir_productId ins) = None"
  shows "fst (createReturn now ins s) = mkReturn ins (uuidStream s (uuidDrawn s)) now \<and>
         returns (snd (createReturn now ins s)) = returns s @ [fst (createReturn now ins s)] \<and>
         stockMovements (snd (createReturn now ins s)) = stockMovements s \<and>
         products (snd (createReturn now ins s)) = products s"
  using assms
  by (simp add: createReturn_def Let_def split_beta randomUUID_def mkReturn_def ups_missing)

theorem createReturn_missing_product_witness:
  "products storeP (ir_productId returnOfGhost) = None \<and>
   returns (snd (createReturn 3 returnOfGhost storeP))
     = returns storeP @ [fst (createReturn 3 returnOfGhost storeP)] \<and>
   stockMovements (snd (createReturn 3 returnOfGhost storeP)) = stockMovements storeP \<and>
   products (snd (createReturn 3 returnOfGhost storeP)) = products storeP"
  using createReturn_missing_product [of storeP returnOfGhost 3]
  by (simp add: storeP_def emptyStorage_def returnOfGhost_def)

end
